theory Spec2Isabelle
  imports Main
begin

section \<open>Errors, responses and the terminal responder\<close>

text \<open>
  An error object as the handlers and the responder see it: the fields
  \<^verbatim>\<open>name\<close>, \<^verbatim>\<open>message\<close>, \<^verbatim>\<open>status\<close> and \<^verbatim>\<open>code\<close>.
  A field the object does not carry is \<open>None\<close>.
\<close>

record err =
  name :: string
  message :: string
  status :: "nat option"
  code :: "int option"

text \<open>The class \<^verbatim>\<open>CustomError\<close>: its constructor sets the name and the status.\<close>

definition CustomError :: "string \<Rightarrow> nat \<Rightarrow> err" where
  "CustomError msg st = \<lparr>name = ''CustomError'', message = msg, status = Some st, code = None\<rparr>"

text \<open>
  The identity that \<^verbatim>\<open>hasAccess\<close> attaches as \<^verbatim>\<open>req.account\<close>:
  the \<^verbatim>\<open>id\<close> and the \<^verbatim>\<open>first_name\<close> of the token.
\<close>

record account_claim =
  claim_id :: string
  claim_first_name :: string

section \<open>Documents and the store\<close>

text \<open>
  The paths of \<^verbatim>\<open>AccountSchema\<close>: the ten it declares, which are the fields of
  \<^verbatim>\<open>AccountInterface\<close>, and \<^verbatim>\<open>updatedAt\<close>, which its \<^verbatim>\<open>timestamps\<close> option adds.
  Ids are the strings the handlers compare.
\<close>

record account =
  first_name :: string
  last_name :: "string option"
  username :: string
  email :: string
  password :: string
  role :: string
  profile_image :: string
  createdAt :: int
  blocked :: bool
  is_email_verified :: bool
  updatedAt :: int

text \<open>
  A document of the accounts collection. The collection itself has no schema: beside the
  schema's paths a stored document carries whatever arrays are stored under
  \<^verbatim>\<open>subscribers\<close> and \<^verbatim>\<open>subscribedUsers\<close>, the two fields that the subscription handlers
  name in their updates (empty where the document has none). They are not paths of the
  schema, and the \<^verbatim>\<open>Account\<close> model below does not write them.
\<close>

record account_document = account +
  subscribers :: "string list"
  subscribedUsers :: "string list"

text \<open>The video document (\<^verbatim>\<open>VideoInterface\<close>).\<close>

record video =
  account_id :: string
  title :: string
  description :: string
  img_url :: string
  video_url :: string
  views :: int
  tags :: "string list"
  likes :: "string list"
  dislikes :: "string list"
  comments_closed :: bool

text \<open>The comment document (\<^verbatim>\<open>CommentInterface\<close>).\<close>

record comment =
  account_id :: string
  video_id :: string
  description :: string
  edited :: bool

text \<open>The three collections, each a map from the document id to the document.\<close>

record store =
  accounts :: "string \<rightharpoonup> account_document"
  videos :: "string \<rightharpoonup> video"
  comments :: "string \<rightharpoonup> comment"

text \<open>
  A request body given to \<^verbatim>\<open>$set\<close>: every field may be supplied or left out. The
  body of an account update may also supply the two fields outside the schema.
\<close>

record account_body =
  set_first_name :: "string option"
  set_last_name :: "string option"
  set_username :: "string option"
  set_email :: "string option"
  set_password :: "string option"
  set_role :: "string option"
  set_profile_image :: "string option"
  set_createdAt :: "int option"
  set_blocked :: "bool option"
  set_is_email_verified :: "bool option"
  set_subscribers :: "string list option"
  set_subscribedUsers :: "string list option"

record video_body =
  set_account_id :: "string option"
  set_title :: "string option"
  set_description :: "string option"
  set_img_url :: "string option"
  set_video_url :: "string option"
  set_views :: "int option"
  set_tags :: "string list option"
  set_likes :: "string list option"
  set_dislikes :: "string list option"
  set_comments_closed :: "bool option"

text \<open>
  What a response carries as its JSON body. The first flag is the field
  \<^verbatim>\<open>success\<close>; the last two bodies have no such field.
\<close>

datatype body =
    Message bool string
  | AccountData bool "account_document option"
  | VideoData bool "video option"
  | TextData bool string
  | TokenData bool string account_claim
  | CommentData bool comment
  | CommentsData bool "string \<rightharpoonup> comment"
  | VideosData bool "string \<rightharpoonup> video"
  | VideoCreated string video
  | VideoArray "string \<rightharpoonup> video"


text \<open>
  A cookie instruction of a response: \<open>SetCookie name value httpOnly expires secure\<close>
  or \<open>ClearCookie name\<close>.
\<close>

datatype cookie_op = SetCookie string string bool int bool | ClearCookie string

record response =
  statusCode :: nat
  cookie_ops :: "cookie_op list"
  body :: body

text \<open>
  How a handler or a middleware ends: it writes the response itself
  (\<^verbatim>\<open>res.status(..).json(..)\<close>), it forwards an error (\<^verbatim>\<open>next(err)\<close>), or it
  passes the request on (\<^verbatim>\<open>next()\<close>).
\<close>

datatype outcome = Respond response | Next err | Pass

text \<open>
  \<^verbatim>\<open>customErrorHandler\<close>: the terminal responder. \<^verbatim>\<open>customError.status || 500\<close>
  takes 500 where the status is missing or 0.
\<close>

definition customErrorHandler :: "err \<Rightarrow> response" where
  "customErrorHandler e =
     (let customError =
            (if name e = ''SyntaxError'' then CustomError ''Unexpected Syntax'' 400
             else if name e = ''ValidationError'' then CustomError (message e) 400
             else if code e = Some 11000 then CustomError ''Duplicate Key Found: Check Your Input'' 400
             else e)
      in \<lparr>statusCode = (case status customError of
                           None \<Rightarrow> 500
                         | Some s \<Rightarrow> if s = 0 then 500 else s),
          cookie_ops = [],
          body = Message False (message customError)\<rparr>)"

text \<open>
  The response a client receives for an outcome of a handler: the handler's own, or the
  terminal responder's for a forwarded error. \<open>Pass\<close> ends no request.
\<close>

fun answer :: "outcome \<Rightarrow> response option" where
  "answer (Respond r) = Some r"
| "answer (Next e) = Some (customErrorHandler e)"
| "answer Pass = None"

section \<open>Values of a request\<close>

text \<open>
  A value of \<^verbatim>\<open>req.cookies.access_token\<close>: \<open>JUndefined\<close> where the request has no such
  cookie, a string, or a value of another type (\<open>JObject\<close> stands for every object and
  array, an integer for every number). The cookie parser in front of the routes leaves a
  string, or the parsed value of a JSON cookie where that value is truthy. The fields of
  a JSON body that \<^verbatim>\<open>login\<close> and \<^verbatim>\<open>register\<close> read are values of the same kind.
\<close>

datatype cookie_value = JUndefined | JNull | JBoolean bool | JNumber int | JString string | JObject

text \<open>The test \<^verbatim>\<open>!token\<close> is the negation of this one.\<close>

fun truthy :: "cookie_value \<Rightarrow> bool" where
  "truthy JUndefined = False"
| "truthy JNull = False"
| "truthy (JBoolean b) = b"
| "truthy (JNumber n) = (n \<noteq> 0)"
| "truthy (JString s) = (s \<noteq> [])"
| "truthy JObject = True"

text \<open>\<^verbatim>\<open>typeof token\<close> is \<^verbatim>\<open>'string'\<close>.\<close>

fun typeof_string :: "cookie_value \<Rightarrow> bool" where
  "typeof_string (JString s) = True"
| "typeof_string _ = False"

record request =
  cookies :: "string \<Rightarrow> cookie_value"
  account :: "account_claim option"

section \<open>The persistence operations\<close>

text \<open>
  The operations on a collection keyed by the id string.
  \<^verbatim>\<open>findByIdAndUpdate\<close>: the document with that id is replaced by its update; a
  collection without it is left as it is. \<^verbatim>\<open>findByIdAndDelete\<close> removes the
  document. These are the answers of a store that throws nothing; what the store throws
  in a request is a parameter of the handlers and of the routes below.
\<close>

definition findByIdAndUpdate :: "(string \<rightharpoonup> 'd) \<Rightarrow> string \<Rightarrow> ('d \<Rightarrow> 'd) \<Rightarrow> (string \<rightharpoonup> 'd)" where
  "findByIdAndUpdate coll i upd = (case coll i of None \<Rightarrow> coll | Some d \<Rightarrow> coll(i \<mapsto> upd d))"

definition findByIdAndDelete :: "(string \<rightharpoonup> 'd) \<Rightarrow> string \<Rightarrow> (string \<rightharpoonup> 'd)" where
  "findByIdAndDelete coll i = coll(i := None)"

text \<open>\<^verbatim>\<open>$addToSet\<close> appends a value the array does not hold; \<^verbatim>\<open>$pull\<close> removes every occurrence.\<close>

definition addToSet :: "'a \<Rightarrow> 'a list \<Rightarrow> 'a list" where
  "addToSet v xs = (if v \<in> set xs then xs else xs @ [v])"

definition pull :: "'a \<Rightarrow> 'a list \<Rightarrow> 'a list" where
  "pull v xs = filter (\<lambda>x. x \<noteq> v) xs"

text \<open>\<^verbatim>\<open>$set: req.body\<close> on a video: a supplied field replaces the stored one.\<close>

definition set_video :: "video_body \<Rightarrow> video \<Rightarrow> video" where
  "set_video b v =
     \<lparr>video.account_id = (case set_account_id b of None \<Rightarrow> video.account_id v | Some x \<Rightarrow> x),
      title = (case set_title b of None \<Rightarrow> title v | Some x \<Rightarrow> x),
      video.description = (case set_description b of None \<Rightarrow> video.description v | Some x \<Rightarrow> x),
      img_url = (case set_img_url b of None \<Rightarrow> img_url v | Some x \<Rightarrow> x),
      video_url = (case set_video_url b of None \<Rightarrow> video_url v | Some x \<Rightarrow> x),
      views = (case set_views b of None \<Rightarrow> views v | Some x \<Rightarrow> x),
      tags = (case set_tags b of None \<Rightarrow> tags v | Some x \<Rightarrow> x),
      likes = (case set_likes b of None \<Rightarrow> likes v | Some x \<Rightarrow> x),
      dislikes = (case set_dislikes b of None \<Rightarrow> dislikes v | Some x \<Rightarrow> x),
      comments_closed = (case set_comments_closed b of None \<Rightarrow> comments_closed v | Some x \<Rightarrow> x)\<rparr>"

section \<open>The Account model\<close>

text \<open>
  The handlers reach the accounts collection through the \<^verbatim>\<open>Account\<close> model of
  \<^verbatim>\<open>AccountSchema\<close>. The schema is strict (it does not set \<^verbatim>\<open>strict: false\<close>): an
  update of a path it does not have is dropped before the update reaches the store.
\<close>

definition Account_paths :: "string list" where
  "Account_paths =
     [''first_name'', ''last_name'', ''username'', ''email'', ''password'', ''role'',
      ''profile_image'', ''createdAt'', ''blocked'', ''is_email_verified'', ''updatedAt'']"

definition strict :: "string \<Rightarrow> ('d \<Rightarrow> 'd) \<Rightarrow> ('d \<Rightarrow> 'd)" where
  "strict path upd = (if path \<in> set Account_paths then upd else (\<lambda>d. d))"

text \<open>
  The option \<^verbatim>\<open>trim: true\<close> of \<^verbatim>\<open>first_name\<close>, \<^verbatim>\<open>last_name\<close> and \<^verbatim>\<open>username\<close>: the
  value is stored without its leading and trailing white space. The white space here is
  that of single-byte characters.
\<close>

definition whitespace :: "char \<Rightarrow> bool" where
  "whitespace c = (c \<in> set [CHR '' '', CHR 0x09, CHR 0x0A, CHR 0x0B, CHR 0x0C, CHR 0x0D])"

definition trim :: "string \<Rightarrow> string" where
  "trim s = rev (dropWhile whitespace (rev (dropWhile whitespace s)))"

text \<open>
  \<^verbatim>\<open>$set: req.body\<close> on an account. The \<^verbatim>\<open>timestamps\<close> option takes \<^verbatim>\<open>createdAt\<close>
  out of the update. The update is then cast against the schema: a supplied field of a
  path replaces the stored one, trimmed where the path has \<^verbatim>\<open>trim\<close>, and a field
  that is no path is dropped. \<open>set_path\<close> is the value of a field after the update:
  the stored one where the field is not supplied.
\<close>

definition timestamps :: "account_body \<Rightarrow> account_body" where
  "timestamps b = b\<lparr>set_createdAt := None\<rparr>"

definition set_path :: "string \<Rightarrow> 'v option \<Rightarrow> ('v \<Rightarrow> 'f) \<Rightarrow> 'f \<Rightarrow> 'f" where
  "set_path path supplied cast stored_value =
     (case supplied of None \<Rightarrow> stored_value | Some v \<Rightarrow> strict path (\<lambda>old. cast v) stored_value)"

definition cast_set :: "account_body \<Rightarrow> account_document \<Rightarrow> account_document" where
  "cast_set b d =
     \<lparr>first_name = set_path ''first_name'' (set_first_name b) trim (first_name d),
      last_name = set_path ''last_name'' (set_last_name b) (\<lambda>v. Some (trim v)) (last_name d),
      username = set_path ''username'' (set_username b) trim (username d),
      email = set_path ''email'' (set_email b) (\<lambda>v. v) (email d),
      password = set_path ''password'' (set_password b) (\<lambda>v. v) (password d),
      role = set_path ''role'' (set_role b) (\<lambda>v. v) (role d),
      profile_image = set_path ''profile_image'' (set_profile_image b) (\<lambda>v. v) (profile_image d),
      createdAt = set_path ''createdAt'' (set_createdAt b) (\<lambda>v. v) (createdAt d),
      blocked = set_path ''blocked'' (set_blocked b) (\<lambda>v. v) (blocked d),
      is_email_verified =
        set_path ''is_email_verified'' (set_is_email_verified b) (\<lambda>v. v) (is_email_verified d),
      updatedAt = updatedAt d,
      subscribers = set_path ''subscribers'' (set_subscribers b) (\<lambda>v. v) (subscribers d),
      subscribedUsers =
        set_path ''subscribedUsers'' (set_subscribedUsers b) (\<lambda>v. v) (subscribedUsers d)\<rparr>"

definition set_account :: "account_body \<Rightarrow> account_document \<Rightarrow> account_document" where
  "set_account b = cast_set (timestamps b)"

text \<open>
  The operations of the model. \<open>thrown\<close> is what the store throws for an operation on an
  id, \<open>None\<close> where it throws nothing: the cast of an id that is no ObjectId fails, an
  update can violate a unique index, the store can be out of reach. An update also sets
  \<^verbatim>\<open>updatedAt\<close> to the time of the call (\<^verbatim>\<open>timestamps\<close>).
\<close>

definition Account_findById ::
  "(string \<Rightarrow> err option) \<Rightarrow> (string \<rightharpoonup> account_document) \<Rightarrow> string \<Rightarrow> err + account_document option" where
  "Account_findById thrown coll i = (case thrown i of Some e \<Rightarrow> Inl e | None \<Rightarrow> Inr (coll i))"

definition Account_findByIdAndUpdate ::
  "(string \<Rightarrow> err option) \<Rightarrow> int \<Rightarrow> (string \<rightharpoonup> account_document) \<Rightarrow> string
   \<Rightarrow> (account_document \<Rightarrow> account_document) \<Rightarrow> err + (string \<rightharpoonup> account_document)" where
  "Account_findByIdAndUpdate thrown now coll i upd =
     (case thrown i of
        Some e \<Rightarrow> Inl e
      | None \<Rightarrow> Inr (findByIdAndUpdate coll i (\<lambda>d. (upd d)\<lparr>updatedAt := now\<rparr>)))"

definition Account_findByIdAndDelete ::
  "(string \<Rightarrow> err option) \<Rightarrow> (string \<rightharpoonup> account_document) \<Rightarrow> string \<Rightarrow> err + (string \<rightharpoonup> account_document)" where
  "Account_findByIdAndDelete thrown coll i =
     (case thrown i of Some e \<Rightarrow> Inl e | None \<Rightarrow> Inr (findByIdAndDelete coll i))"

text \<open>
  A document that the model creates holds the paths of the schema and no other field.
\<close>

definition stored :: "account \<Rightarrow> account_document" where
  "stored a =
     \<lparr>first_name = first_name a, last_name = last_name a, username = username a, email = email a,
      password = password a, role = role a, profile_image = profile_image a,
      createdAt = createdAt a, blocked = blocked a, is_email_verified = is_email_verified a,
      updatedAt = updatedAt a, subscribers = [], subscribedUsers = []\<rparr>"

section \<open>Documents with the defaults of their schemas\<close>

text \<open>
  An account, a video and a comment with the given fields and, for the others, the
  defaults of the schema.
\<close>

definition new_account :: "string \<Rightarrow> string \<Rightarrow> string \<Rightarrow> string \<Rightarrow> string \<Rightarrow> int \<Rightarrow> account_document" where
  "new_account fn ln un em hashedPassword now =
     \<lparr>first_name = fn, last_name = Some ln, username = un, email = em,
      password = hashedPassword, role = ''user'', profile_image = ''profile_image.jpg'',
      createdAt = now, blocked = False, is_email_verified = False, updatedAt = now,
      subscribers = [], subscribedUsers = []\<rparr>"

definition new_video :: "string \<Rightarrow> string \<Rightarrow> string \<Rightarrow> string \<Rightarrow> string \<Rightarrow> video" where
  "new_video owner t d savedImage savedVideo =
     \<lparr>video.account_id = owner, title = t, video.description = d,
      img_url = ''http://localhost:8090/images/'' @ savedImage,
      video_url = ''http://localhost:8090/videos/'' @ savedVideo,
      views = 0, tags = [], likes = [], dislikes = [], comments_closed = False\<rparr>"

definition new_comment :: "string \<Rightarrow> string \<Rightarrow> string \<Rightarrow> comment" where
  "new_comment auth_account_id vid d =
     \<lparr>comment.account_id = auth_account_id, video_id = vid, comment.description = d, edited = False\<rparr>"

section \<open>The account handlers\<close>

text \<open>
  The routes run \<^verbatim>\<open>hasAccess\<close> before each of the mutation handlers;
  \<open>authAccountId\<close> is the id that the guard attached (\<^verbatim>\<open>req.account.id\<close>), the other
  id is the route parameter \<^verbatim>\<open>req.params.accountId\<close>. A handler returns the store it
  leaves and how it ends. \<open>thrown\<close> is what the store throws in this request for an
  operation on an id and \<open>now\<close> is the clock; an error a store call throws is caught at
  the end of the handler and forwarded.

  In \<^verbatim>\<open>updateAccountInformations\<close> the \<^verbatim>\<open>save()\<close> of the updated document, which
  runs where the update found one, has nothing to write; \<open>save_thrown\<close> is what it
  throws, \<open>None\<close> where it returns.
\<close>

definition updateAccountInformations ::
  "(string \<Rightarrow> err option) \<Rightarrow> err option \<Rightarrow> int \<Rightarrow> store \<Rightarrow> string \<Rightarrow> string \<Rightarrow> account_body
   \<Rightarrow> store \<times> outcome" where
  "updateAccountInformations thrown save_thrown now st authAccountId updateAccountId reqBody =
     (if updateAccountId = [] then
        (st, Next (CustomError ''Please provide an account id.'' 400))
      else if authAccountId \<noteq> updateAccountId then
        (st, Next (CustomError ''You cannot update this channel'' 500))
      else
        (case Account_findByIdAndUpdate thrown now (accounts st) updateAccountId (set_account reqBody) of
           Inl e \<Rightarrow> (st, Next e)
         | Inr accs \<Rightarrow>
             (case accs updateAccountId of
                None \<Rightarrow>
                  (st\<lparr>accounts := accs\<rparr>,
                   Respond \<lparr>statusCode = 200, cookie_ops = [], body = AccountData True None\<rparr>)
              | Some updatedAccount \<Rightarrow>
                  (case save_thrown of
                     Some e \<Rightarrow> (st\<lparr>accounts := accs\<rparr>, Next e)
                   | None \<Rightarrow>
                       (st\<lparr>accounts := accs\<rparr>,
                        Respond \<lparr>statusCode = 200, cookie_ops = [],
                                 body = AccountData True (Some updatedAccount)\<rparr>)))))"

text \<open>
  \<^verbatim>\<open>subscribeAccount\<close> and \<^verbatim>\<open>unsubscribeAccount\<close>: two updates, the second on the
  collection the first one leaves. Their \<^verbatim>\<open>$addToSet\<close> and \<^verbatim>\<open>$pull\<close> name
  \<^verbatim>\<open>subscribedUsers\<close> and \<^verbatim>\<open>subscribers\<close>.
\<close>

definition subscribeAccount ::
  "(string \<Rightarrow> err option) \<Rightarrow> int \<Rightarrow> store \<Rightarrow> string \<Rightarrow> string \<Rightarrow> store \<times> outcome" where
  "subscribeAccount thrown now st authAccountId subscribeAccountId =
     (if authAccountId \<noteq> subscribeAccountId then
        (case Account_findByIdAndUpdate thrown now (accounts st) authAccountId
                (strict ''subscribedUsers''
                   (\<lambda>a. a\<lparr>subscribedUsers := addToSet subscribeAccountId (subscribedUsers a)\<rparr>)) of
           Inl e \<Rightarrow> (st, Next e)
         | Inr accs1 \<Rightarrow>
             (case Account_findByIdAndUpdate thrown now accs1 subscribeAccountId
                     (strict ''subscribers''
                        (\<lambda>a. a\<lparr>subscribers := addToSet authAccountId (subscribers a)\<rparr>)) of
                Inl e \<Rightarrow> (st\<lparr>accounts := accs1\<rparr>, Next e)
              | Inr accs2 \<Rightarrow>
                  (st\<lparr>accounts := accs2\<rparr>,
                   Respond \<lparr>statusCode = 200, cookie_ops = [],
                            body = Message True (''You have been subscribed to '' @ subscribeAccountId @ ''.'')\<rparr>)))
      else (st, Next (CustomError ''You cannot subscribe to yourself.'' 400)))"

definition unsubscribeAccount ::
  "(string \<Rightarrow> err option) \<Rightarrow> int \<Rightarrow> store \<Rightarrow> string \<Rightarrow> string \<Rightarrow> store \<times> outcome" where
  "unsubscribeAccount thrown now st authAccountId unsubscribeAccountId =
     (if authAccountId \<noteq> unsubscribeAccountId then
        (case Account_findByIdAndUpdate thrown now (accounts st) authAccountId
                (strict ''subscribedUsers''
                   (\<lambda>a. a\<lparr>subscribedUsers := pull unsubscribeAccountId (subscribedUsers a)\<rparr>)) of
           Inl e \<Rightarrow> (st, Next e)
         | Inr accs1 \<Rightarrow>
             (case Account_findByIdAndUpdate thrown now accs1 unsubscribeAccountId
                     (strict ''subscribers''
                        (\<lambda>a. a\<lparr>subscribers := pull authAccountId (subscribers a)\<rparr>)) of
                Inl e \<Rightarrow> (st\<lparr>accounts := accs1\<rparr>, Next e)
              | Inr accs2 \<Rightarrow>
                  (st\<lparr>accounts := accs2\<rparr>,
                   Respond \<lparr>statusCode = 200, cookie_ops = [],
                            body = Message True (''You have been unsubscribed from '' @ unsubscribeAccountId @ ''.'')\<rparr>)))
      else (st, Next (CustomError ''You cannot unsubscribe to yourself.'' 400)))"

definition deleteSingleAccount ::
  "(string \<Rightarrow> err option) \<Rightarrow> store \<Rightarrow> string \<Rightarrow> string \<Rightarrow> store \<times> outcome" where
  "deleteSingleAccount thrown st authAccountId deleteAccountId =
     (if deleteAccountId = [] then
        (st, Next (CustomError ''Please provide a channel id.'' 400))
      else if authAccountId \<noteq> deleteAccountId then
        (st, Next (CustomError ''You cannot delete this channel.'' 500))
      else
        (case Account_findByIdAndDelete thrown (accounts st) deleteAccountId of
           Inl e \<Rightarrow> (st, Next e)
         | Inr accs \<Rightarrow>
             (st\<lparr>accounts := accs\<rparr>,
              Respond \<lparr>statusCode = 200, cookie_ops = [ClearCookie ''access_token''],
                       body = Message True ''Your channel has been deleted successfully.''\<rparr>)))"

definition findSingleAccount :: "(string \<Rightarrow> err option) \<Rightarrow> store \<Rightarrow> string \<Rightarrow> store \<times> outcome" where
  "findSingleAccount thrown st accountId =
     (if accountId = [] then
        (st, Next (CustomError ''Please provide a verified account id'' 400))
      else
        (case Account_findById thrown (accounts st) accountId of
           Inl e \<Rightarrow> (st, Next e)
         | Inr None \<Rightarrow> (st, Next (CustomError ''There is no account with this id.'' 404))
         | Inr (Some a) \<Rightarrow>
             (st, Respond \<lparr>statusCode = 200, cookie_ops = [], body = AccountData True (Some a)\<rparr>)))"

section \<open>The video and comment handlers\<close>

text \<open>
  \<open>isValid\<close> stands for \<^verbatim>\<open>mongoose.Types.ObjectId.isValid\<close>, the library's test of
  an id's format; the handlers are modelled for every such test.
  \<^verbatim>\<open>req.account?.id?.toString()\<close> and \<^verbatim>\<open>video.account_id.toString()\<close> are the two
  id strings themselves.
\<close>

definition updateSingleVideo :: "(string \<Rightarrow> bool) \<Rightarrow> store \<Rightarrow> string \<Rightarrow> string \<Rightarrow> video_body \<Rightarrow> store \<times> outcome" where
  "updateSingleVideo isValid st auth_account_id videoId reqBody =
     (if videoId = [] then
        (st, Next (CustomError ''Please provide a video id.'' 400))
      else if \<not> isValid videoId then
        (st, Next (CustomError ''Please provide a verified id.'' 400))
      else
        (case videos st videoId of
           None \<Rightarrow> (st, Next (CustomError ''The video you are looking for could not be found.'' 404))
         | Some v \<Rightarrow>
             if auth_account_id = video.account_id v then
               (let vids = findByIdAndUpdate (videos st) videoId (set_video reqBody)
                in (st\<lparr>videos := vids\<rparr>,
                    Respond \<lparr>statusCode = 200, cookie_ops = [],
                             body = VideoData True (vids videoId)\<rparr>))
             else (st, Next (CustomError ''You can update only your account'' 400))))"

definition deleteSingleVideo :: "(string \<Rightarrow> bool) \<Rightarrow> store \<Rightarrow> string \<Rightarrow> string \<Rightarrow> store \<times> outcome" where
  "deleteSingleVideo isValid st auth_account_id videoId =
     (if videoId = [] then
        (st, Next (CustomError ''Please provide a video id.'' 400))
      else if \<not> isValid videoId then
        (st, Next (CustomError ''Please provide a verified id.'' 400))
      else
        (case videos st videoId of
           None \<Rightarrow> (st, Next (CustomError ''The video you are looking for could not be found.'' 404))
         | Some v \<Rightarrow>
             if auth_account_id = video.account_id v then
               (st\<lparr>videos := findByIdAndDelete (videos st) videoId\<rparr>,
                Respond \<lparr>statusCode = 200, cookie_ops = [],
                         body = TextData True ''Your video has been deleted.''\<rparr>)
             else (st, Next (CustomError ''You can delete only your video'' 400))))"

definition deleteComment :: "(string \<Rightarrow> bool) \<Rightarrow> store \<Rightarrow> string \<Rightarrow> string \<Rightarrow> store \<times> outcome" where
  "deleteComment isValid st auth_account_id commentId =
     (if commentId = [] then
        (st, Next (CustomError ''Please provide a comment id.'' 400))
      else if \<not> isValid commentId then
        (st, Next (CustomError ''Please provide a verified comment id.'' 400))
      else
        (case comments st commentId of
           None \<Rightarrow>
             (st, Respond \<lparr>statusCode = 200, cookie_ops = [],
                           body = Message True ''Comment couldn't be find.''\<rparr>)
         | Some c \<Rightarrow>
             if comment.account_id c = auth_account_id then
               (st\<lparr>comments := findByIdAndDelete (comments st) commentId\<rparr>,
                Respond \<lparr>statusCode = 200, cookie_ops = [],
                         body = Message True ''Your comment has been deleted.''\<rparr>)
             else
               (st, Respond \<lparr>statusCode = 400, cookie_ops = [],
                             body = Message False ''You cannot delete this comment.''\<rparr>)))"

definition getSingleVideo :: "(string \<Rightarrow> bool) \<Rightarrow> store \<Rightarrow> string \<Rightarrow> store \<times> outcome" where
  "getSingleVideo isValid st videoId =
     (if videoId = [] then
        (st, Next (CustomError ''Please provide a video id'' 400))
      else if \<not> isValid videoId then
        (st, Next (CustomError ''Please provide a verified ID'' 404))
      else
        (case videos st videoId of
           None \<Rightarrow> (st, Next (CustomError ''The video you are looking for could not be found.'' 404))
         | Some v \<Rightarrow>
             (st, Respond \<lparr>statusCode = 200, cookie_ops = [], body = VideoData True (Some v)\<rparr>)))"

text \<open>
  \<^verbatim>\<open>getComments\<close> answers with the comments of the video, here the part of the
  collection whose \<^verbatim>\<open>video_id\<close> is the given one.
\<close>

definition getComments :: "(string \<Rightarrow> bool) \<Rightarrow> store \<Rightarrow> string \<Rightarrow> store \<times> outcome" where
  "getComments isValid st videoId =
     (if videoId = [] then
        (st, Next (CustomError ''Please provide a video id'' 400))
      else if \<not> isValid videoId then
        (st, Next (CustomError ''Please provide a verified video id'' 400))
      else
        (st, Respond \<lparr>statusCode = 200, cookie_ops = [],
                      body = CommentsData True
                               (\<lambda>i. case comments st i of
                                      None \<Rightarrow> None
                                    | Some c \<Rightarrow> if video_id c = videoId then Some c else None)\<rparr>))"

text \<open>
  \<^verbatim>\<open>addNewComment\<close>: \<open>reqDescription\<close> is \<^verbatim>\<open>req.body.description\<close>, \<open>None\<close> where
  the body has none. \<open>created\<close> is what \<^verbatim>\<open>Comment.create\<close> does with the new document,
  the error it throws or the id it stores the document under, and \<open>save_thrown\<close> is
  what the \<^verbatim>\<open>save()\<close> after it throws.
\<close>

definition addNewComment ::
  "(string \<Rightarrow> bool) \<Rightarrow> (err + string) \<Rightarrow> err option \<Rightarrow> store \<Rightarrow> string \<Rightarrow> string
   \<Rightarrow> string option \<Rightarrow> store \<times> outcome" where
  "addNewComment isValid created save_thrown st auth_account_id videoId reqDescription =
     (if videoId = [] then
        (st, Next (CustomError ''Please provide a video id'' 400))
      else if \<not> isValid videoId then
        (st, Next (CustomError ''Please provide a verified video id'' 400))
      else
        (case reqDescription of
           None \<Rightarrow> (st, Next (CustomError ''Please provide a description'' 400))
         | Some d \<Rightarrow>
             if d = [] then (st, Next (CustomError ''Please provide a description'' 400))
             else
               (case created of
                  Inl e \<Rightarrow> (st, Next e)
                | Inr newId \<Rightarrow>
                    (let c = new_comment auth_account_id videoId d
                     in case save_thrown of
                          Some e \<Rightarrow> (st\<lparr>comments := (comments st)(newId \<mapsto> c)\<rparr>, Next e)
                        | None \<Rightarrow>
                            (st\<lparr>comments := (comments st)(newId \<mapsto> c)\<rparr>,
                             Respond \<lparr>statusCode = 200, cookie_ops = [],
                                      body = CommentData True c\<rparr>)))))"

text \<open>
  \<^verbatim>\<open>getSingleVideo\<close>, \<^verbatim>\<open>updateSingleVideo\<close>, \<^verbatim>\<open>deleteSingleVideo\<close>,
  \<^verbatim>\<open>getComments\<close> and \<^verbatim>\<open>deleteComment\<close> are stated above on a store that answers.
  Each of them has the same \<^verbatim>\<open>catch\<close> block as the account handlers; \<open>caught\<close> is
  that block: \<open>reached\<close> says that the request passed the tests in front of the
  handler's first store call, \<open>failure\<close> is what a store call of the handler throws in
  this request, and the forwarded error leaves the store as it was, since a handler of
  these five writes at most once, with its last store call.
\<close>

definition caught :: "bool \<Rightarrow> err option \<Rightarrow> store \<Rightarrow> store \<times> outcome \<Rightarrow> store \<times> outcome" where
  "caught reached failure st result =
     (if reached then (case failure of Some e \<Rightarrow> (st, Next e) | None \<Rightarrow> result) else result)"

text \<open>
  \<^verbatim>\<open>addNewVideo\<close>: \<open>created\<close> is what \<^verbatim>\<open>Video.create\<close> does with the new document, the
  error it throws (a required field is missing, the store is out of reach) or the id it
  stores the document under; \<open>savedImage\<close> and \<open>savedVideo\<close> are the texts of
  \<^verbatim>\<open>req.savedImage\<close> and \<^verbatim>\<open>req.savedVideo\<close> in the two URLs. The body of the answer
  has no field \<^verbatim>\<open>success\<close>.
\<close>

definition addNewVideo ::
  "(err + string) \<Rightarrow> store \<Rightarrow> string \<Rightarrow> string \<Rightarrow> string \<Rightarrow> string \<Rightarrow> string \<Rightarrow> store \<times> outcome" where
  "addNewVideo created st auth_account_id reqTitle reqDescription savedImage savedVideo =
     (case created of
        Inl e \<Rightarrow> (st, Next e)
      | Inr newId \<Rightarrow>
          (let newVideo = new_video auth_account_id reqTitle reqDescription savedImage savedVideo
           in (st\<lparr>videos := (videos st)(newId \<mapsto> newVideo)\<rparr>,
               Respond \<lparr>statusCode = 201, cookie_ops = [],
                        body = VideoCreated ''Your new video has been generated!'' newVideo\<rparr>)))"

text \<open>
  \<^verbatim>\<open>getVideosByAccount\<close> and \<^verbatim>\<open>addViewToVideo\<close> give the route parameter to the store
  untested; \<open>thrown\<close> is what the store throws for it. \<^verbatim>\<open>getRandomVideos\<close>: \<open>sample\<close>
  is what the aggregation does, the error it throws or its sample of the videos.
\<close>

definition getVideosByAccount :: "(string \<Rightarrow> err option) \<Rightarrow> store \<Rightarrow> string \<Rightarrow> store \<times> outcome" where
  "getVideosByAccount thrown st accountId =
     (case thrown accountId of
        Some e \<Rightarrow> (st, Next e)
      | None \<Rightarrow>
          (st, Respond \<lparr>statusCode = 200, cookie_ops = [],
                        body = VideosData True
                                 (\<lambda>i. case videos st i of
                                        None \<Rightarrow> None
                                      | Some v \<Rightarrow> if video.account_id v = accountId then Some v else None)\<rparr>))"

definition getRandomVideos :: "(err + (string \<rightharpoonup> video)) \<Rightarrow> store \<Rightarrow> store \<times> outcome" where
  "getRandomVideos sample st =
     (case sample of
        Inl e \<Rightarrow> (st, Next e)
      | Inr vids \<Rightarrow> (st, Respond \<lparr>statusCode = 200, cookie_ops = [], body = VideoArray vids\<rparr>))"

definition addViewToVideo :: "(string \<Rightarrow> err option) \<Rightarrow> store \<Rightarrow> string \<Rightarrow> store \<times> outcome" where
  "addViewToVideo thrown st videoId =
     (case thrown videoId of
        Some e \<Rightarrow> (st, Next e)
      | None \<Rightarrow>
          (st\<lparr>videos := findByIdAndUpdate (videos st) videoId (\<lambda>v. v\<lparr>views := views v + 1\<rparr>)\<rparr>,
           Respond \<lparr>statusCode = 200, cookie_ops = [],
                    body = Message True ''The view has been increased.''\<rparr>))"

section \<open>The session token codec\<close>

text \<open>
  Modelled from the spec: the token of the jsonwebtoken library, whose code is not part
  of the sources. Section 6: the claim \<^verbatim>\<open>{id, first_name, iat, exp}\<close>, here with the
  signature over it.
\<close>

record token =
  token_id :: string
  token_first_name :: string
  iat :: int
  exp :: int
  signature :: string

text \<open>
  Modelled from the spec: the symmetric MAC of the token library (section 4.2), over a
  claim under a key. It is a parameter: nothing is assumed of it here.
\<close>

record jwt_lib =
  mac :: "string \<Rightarrow> string \<times> string \<times> int \<times> int \<Rightarrow> string"

text \<open>
  Modelled from the spec: the opaque string of a token (section 4.2). The spec fixes no
  format for it. Here the four fields of the claim are written one after the other and
  the signature last: a number as its sign and its magnitude in unary, a string behind
  its length.
\<close>

definition enc_nat :: "nat \<Rightarrow> string" where
  "enc_nat n = replicate n (CHR ''1'') @ [CHR ''0'']"

text \<open>Modelled from the spec: reading a number in unary back, with the rest of the string.\<close>

definition dec_nat :: "string \<Rightarrow> (nat \<times> string) option" where
  "dec_nat xs =
     (case dropWhile (\<lambda>c. c = CHR ''1'') xs of
        [] \<Rightarrow> None
      | c # rest \<Rightarrow>
          if c = CHR ''0'' then Some (length (takeWhile (\<lambda>c. c = CHR ''1'') xs), rest) else None)"

text \<open>Modelled from the spec: a string of the opaque string, behind its length, and its reading.\<close>

definition enc_str :: "string \<Rightarrow> string" where
  "enc_str s = enc_nat (length s) @ s"

definition dec_str :: "string \<Rightarrow> (string \<times> string) option" where
  "dec_str xs =
     (case dec_nat xs of
        None \<Rightarrow> None
      | Some (n, rest) \<Rightarrow> if length rest < n then None else Some (take n rest, drop n rest))"

text \<open>Modelled from the spec: a timestamp of the opaque string, behind its sign, and its reading.\<close>

definition enc_int :: "int \<Rightarrow> string" where
  "enc_int i = (if i < 0 then CHR ''-'' else CHR ''+'') # enc_nat (nat \<bar>i\<bar>)"

definition dec_int :: "string \<Rightarrow> (int \<times> string) option" where
  "dec_int xs =
     (case xs of
        [] \<Rightarrow> None
      | c # ys \<Rightarrow>
          (case dec_nat ys of
             None \<Rightarrow> None
           | Some (n, rest) \<Rightarrow>
               if c = CHR ''-'' then Some (- int n, rest)
               else if c = CHR ''+'' then Some (int n, rest)
               else None))"

text \<open>
  Modelled from the spec: the opaque string of a token and the reading of a string as a
  token, \<open>None\<close> for a string that is none.
\<close>

definition serialize :: "token \<Rightarrow> string" where
  "serialize t =
     enc_str (token_id t) @ enc_str (token_first_name t) @ enc_int (iat t) @ enc_int (exp t)
     @ signature t"

definition deserialize :: "string \<Rightarrow> token option" where
  "deserialize s =
     (case dec_str s of
        None \<Rightarrow> None
      | Some (i, s1) \<Rightarrow>
          (case dec_str s1 of
             None \<Rightarrow> None
           | Some (f, s2) \<Rightarrow>
               (case dec_int s2 of
                  None \<Rightarrow> None
                | Some (a, s3) \<Rightarrow>
                    (case dec_int s3 of
                       None \<Rightarrow> None
                     | Some (e, sig) \<Rightarrow>
                         Some \<lparr>token_id = i, token_first_name = f, iat = a, exp = e,
                               signature = sig\<rparr>))))"

text \<open>
  Modelled from the spec: the two failures of parsing (section 4.2). Neither carries a
  status.
\<close>

definition TokenInvalid :: err where
  "TokenInvalid = \<lparr>name = ''TokenInvalid'', message = ''invalid token'', status = None, code = None\<rparr>"

definition TokenExpired :: err where
  "TokenExpired = \<lparr>name = ''TokenExpired'', message = ''token expired'', status = None, code = None\<rparr>"

text \<open>
  Modelled from the spec: \<^verbatim>\<open>jwt.sign\<close> of the jsonwebtoken library, whose code is not
  part of the sources. Section 4.2: \<^verbatim>\<open>issue(claim, secret_key, ttl)\<close> produces a token
  binding the claim and the expiry timestamp \<open>now + ttl\<close>, signed with the key by a
  symmetric MAC; the output is an opaque string. The clock of a token counts seconds.
\<close>

definition sign :: "jwt_lib \<Rightarrow> account_claim \<Rightarrow> string \<Rightarrow> int \<Rightarrow> int \<Rightarrow> token" where
  "sign lib claim secret_key ttl now =
     \<lparr>token_id = claim_id claim, token_first_name = claim_first_name claim,
      iat = now, exp = now + ttl,
      signature = mac lib secret_key (claim_id claim, claim_first_name claim, now, now + ttl)\<rparr>"

definition issue :: "jwt_lib \<Rightarrow> account_claim \<Rightarrow> string \<Rightarrow> int \<Rightarrow> int \<Rightarrow> string" where
  "issue lib claim secret_key ttl now = serialize (sign lib claim secret_key ttl now)"

text \<open>
  Modelled from the spec: \<^verbatim>\<open>jwt.verify\<close> of the jsonwebtoken library, whose code is not
  part of the sources. Section 4.2: \<^verbatim>\<open>parse(token, secret_key)\<close> verifies signature and
  expiry; it fails with \<open>TokenInvalid\<close> if the signature does not match and with
  \<open>TokenExpired\<close> if the current time is at or past the embedded expiry. A string that
  is no token at all has no matching signature.
\<close>

definition parse :: "jwt_lib \<Rightarrow> string \<Rightarrow> string \<Rightarrow> int \<Rightarrow> err + account_claim" where
  "parse lib tok secret_key now =
     (case deserialize tok of
        None \<Rightarrow> Inl TokenInvalid
      | Some t \<Rightarrow>
          if signature t \<noteq> mac lib secret_key (token_id t, token_first_name t, iat t, exp t)
          then Inl TokenInvalid
          else if exp t \<le> now then Inl TokenExpired
          else Inr \<lparr>claim_id = token_id t, claim_first_name = token_first_name t\<rparr>)"

section \<open>Issuing the token, the two entry handlers and the access guard\<close>

text \<open>
  The environment: \<open>JWT_EXPIRE\<close> and \<open>JWT_COOKIE_EXPIRE\<close> are the numbers that
  \<^verbatim>\<open>parseInt\<close> reads from the two variables, the first in seconds and the second in
  milliseconds.
\<close>

record env =
  JWT_SECRET_KEY :: string
  JWT_EXPIRE :: int
  JWT_COOKIE_EXPIRE :: int
  NODE_ENV :: string

text \<open>
  \<^verbatim>\<open>JWTLib._sendToken\<close>: \<open>accountId\<close> is \<^verbatim>\<open>account.id\<close> and \<open>now\<close> is
  \<^verbatim>\<open>Date.now()\<close>, in milliseconds. The token is issued at the second of \<open>now\<close>; the
  expiry of the cookie is \<open>now\<close> and the cookie's lifetime, in milliseconds.
\<close>

definition sendToken :: "jwt_lib \<Rightarrow> env \<Rightarrow> int \<Rightarrow> string \<Rightarrow> account_document \<Rightarrow> response" where
  "sendToken lib ev now accountId acc =
     (let payload = \<lparr>claim_id = accountId, claim_first_name = first_name acc\<rparr>;
          tok = issue lib payload (JWT_SECRET_KEY ev) (JWT_EXPIRE ev) (now div 1000)
      in \<lparr>statusCode = 200,
          cookie_ops = [SetCookie ''access_token'' tok True (now + JWT_COOKIE_EXPIRE ev)
                          (if NODE_ENV ev = ''development'' then False else True)],
          body = TokenData True tok payload\<rparr>)"

text \<open>
  The two methods of \<^verbatim>\<open>CryptoLib\<close>. \<open>bcrypt_hash\<close> and \<open>bcrypt_compare\<close> stand for
  the bcrypt library: the error it throws (its arguments must be strings) or its result.
  Each method catches the error, forwards it with the \<^verbatim>\<open>next\<close> it was given and
  returns nothing: the result is what the method forwarded and the value it returned,
  \<open>None\<close> for \<^verbatim>\<open>undefined\<close>.
\<close>

definition hashUserPassword ::
  "(cookie_value \<Rightarrow> err + string) \<Rightarrow> cookie_value \<Rightarrow> outcome list \<times> string option" where
  "hashUserPassword bcrypt_hash reqPassword =
     (case bcrypt_hash reqPassword of
        Inl e \<Rightarrow> ([Next e], None)
      | Inr hashedPassword \<Rightarrow> ([], Some hashedPassword))"

definition comparePassword ::
  "(cookie_value \<Rightarrow> string \<Rightarrow> err + bool) \<Rightarrow> cookie_value \<Rightarrow> string \<Rightarrow> outcome list \<times> bool option" where
  "comparePassword bcrypt_compare reqPassword hashedPassword =
     (case bcrypt_compare reqPassword hashedPassword of
        Inl e \<Rightarrow> ([Next e], None)
      | Inr result \<Rightarrow> ([], Some result))"

text \<open>
  \<^verbatim>\<open>login\<close> and \<^verbatim>\<open>register\<close> return the store they leave and everything they and the
  methods of \<^verbatim>\<open>CryptoLib\<close> forwarded or answered, in order. The fields of the body are
  JSON values, \<open>JUndefined\<close> where the body has none.

  In \<^verbatim>\<open>login\<close>, \<open>findOne\<close> stands for the store's query for the account whose email
  or username is the given value: the error it throws, or the id and the document it
  finds, if any.
\<close>

definition login ::
  "(cookie_value \<Rightarrow> string \<Rightarrow> err + bool)
   \<Rightarrow> ((string \<rightharpoonup> account_document) \<Rightarrow> cookie_value \<Rightarrow> err + (string \<times> account_document) option)
   \<Rightarrow> jwt_lib \<Rightarrow> env \<Rightarrow> int \<Rightarrow> store \<Rightarrow> cookie_value \<Rightarrow> cookie_value \<Rightarrow> store \<times> outcome list" where
  "login bcrypt_compare findOne lib ev now st emailOrUsername reqPassword =
     (if \<not> truthy emailOrUsername then
        (st, [Next (CustomError ''Please provide a value.'' 400)])
      else if \<not> truthy reqPassword then
        (st, [Next (CustomError ''Please provide a password.'' 400)])
      else
        (case findOne (accounts st) emailOrUsername of
           Inl e \<Rightarrow> (st, [Next e])
         | Inr None \<Rightarrow> (st, [Next (CustomError ''User can't be found.'' 404)])
         | Inr (Some (accountId, acc)) \<Rightarrow>
             (case comparePassword bcrypt_compare reqPassword (password acc) of
                (forwarded, comparedPasswords) \<Rightarrow>
                  if comparedPasswords \<noteq> Some True then
                    (st, forwarded @ [Next (CustomError ''Your password is not correct.'' 400)])
                  else (st, forwarded @ [Respond (sendToken lib ev now accountId acc)]))))"

text \<open>
  What \<^verbatim>\<open>register\<close> gives to \<^verbatim>\<open>Account.create\<close>: four fields of the body, with
  \<^verbatim>\<open>' '\<close> for a falsy last name, and the hashed password, \<open>None\<close> for
  \<^verbatim>\<open>undefined\<close>.
\<close>

record registration =
  reg_first_name :: cookie_value
  reg_last_name :: cookie_value
  reg_username :: cookie_value
  reg_email :: cookie_value
  reg_password :: "string option"

text \<open>
  \<^verbatim>\<open>register\<close>. \<open>create\<close> is what \<^verbatim>\<open>Account.create\<close> does with the fields: the error
  it throws (a validation fails, a unique value is taken) or the id and the paths of the
  document it stores; \<open>save_thrown\<close> is what the \<^verbatim>\<open>save()\<close> after it throws.
\<close>

definition register ::
  "(cookie_value \<Rightarrow> err + string) \<Rightarrow> (registration \<Rightarrow> err + string \<times> account) \<Rightarrow> err option
   \<Rightarrow> store \<Rightarrow> cookie_value \<Rightarrow> cookie_value \<Rightarrow> cookie_value \<Rightarrow> cookie_value \<Rightarrow> cookie_value
   \<Rightarrow> store \<times> outcome list" where
  "register bcrypt_hash create save_thrown st reqFirstName reqLastName reqUsername reqEmail reqPassword =
     (case hashUserPassword bcrypt_hash reqPassword of
        (forwarded, hashedPassword) \<Rightarrow>
          (case create \<lparr>reg_first_name = reqFirstName,
                        reg_last_name = (if truthy reqLastName then reqLastName else JString '' ''),
                        reg_username = reqUsername, reg_email = reqEmail,
                        reg_password = hashedPassword\<rparr> of
             Inl e \<Rightarrow> (st, forwarded @ [Next e])
           | Inr (accountId, acc) \<Rightarrow>
               (case save_thrown of
                  Some e \<Rightarrow>
                    (st\<lparr>accounts := (accounts st)(accountId \<mapsto> stored acc)\<rparr>, forwarded @ [Next e])
                | None \<Rightarrow>
                    (st\<lparr>accounts := (accounts st)(accountId \<mapsto> stored acc)\<rparr>,
                     forwarded @ [Respond \<lparr>statusCode = 201, cookie_ops = [],
                                           body = AccountData True (Some (stored acc))\<rparr>]))))"

text \<open>
  \<^verbatim>\<open>hasAccess\<close>: the request it leaves and how it ends. \<open>now\<close> is \<^verbatim>\<open>Date.now()\<close>, in
  milliseconds; the token is verified at its second.
\<close>

definition hasAccess :: "jwt_lib \<Rightarrow> env \<Rightarrow> int \<Rightarrow> request \<Rightarrow> request \<times> outcome" where
  "hasAccess lib ev now req =
     (let tok = cookies req ''access_token'' in
      if \<not> truthy tok then
        (req, Next (CustomError ''Please provide a token or authenticate.'' 401))
      else if \<not> typeof_string tok then
        (req, Next (CustomError ''Invalid token format.'' 400))
      else
        (case tok of
           JString s \<Rightarrow>
             (case parse lib s (JWT_SECRET_KEY ev) (now div 1000) of
                Inl e \<Rightarrow> (req, Next e)
              | Inr result \<Rightarrow>
                  (req\<lparr>account := Some \<lparr>claim_id = claim_id result,
                                          claim_first_name = claim_first_name result\<rparr>\<rparr>, Pass))
         | _ \<Rightarrow> (req, Next (CustomError ''Invalid token format.'' 400))))"

text \<open>
  A route \<^verbatim>\<open>router.put(path, hasAccess, handler)\<close>: the handler runs on the request
  the guard passes on, and an error the guard forwards ends the request.
\<close>

definition guarded ::
  "jwt_lib \<Rightarrow> env \<Rightarrow> int \<Rightarrow> (store \<Rightarrow> request \<Rightarrow> store \<times> outcome) \<Rightarrow> store \<Rightarrow> request \<Rightarrow> store \<times> outcome" where
  "guarded lib ev now handler st req =
     (case hasAccess lib ev now req of
        (req', Pass) \<Rightarrow> handler st req'
      | (req', Respond r) \<Rightarrow> (st, Respond r)
      | (req', Next e) \<Rightarrow> (st, Next e))"

section \<open>The routes\<close>

text \<open>
  What the handlers take from outside the store in one request: the id test, what the
  store throws for an operation on an id and for a \<^verbatim>\<open>save()\<close>, the bcrypt library,
  the account query, the three \<^verbatim>\<open>create\<close> calls, the sample of the videos, the token
  library, the environment and the clock.
\<close>

record deps =
  dep_isValid :: "string \<Rightarrow> bool"
  dep_thrown :: "string \<Rightarrow> err option"
  dep_save_thrown :: "err option"
  dep_bcrypt_hash :: "cookie_value \<Rightarrow> err + string"
  dep_bcrypt_compare :: "cookie_value \<Rightarrow> string \<Rightarrow> err + bool"
  dep_findOne :: "(string \<rightharpoonup> account_document) \<Rightarrow> cookie_value \<Rightarrow> err + (string \<times> account_document) option"
  dep_create_account :: "registration \<Rightarrow> err + string \<times> account"
  dep_create_video :: "err + string"
  dep_create_comment :: "err + string"
  dep_sample :: "err + (string \<rightharpoonup> video)"
  dep_jwt :: jwt_lib
  dep_env :: env
  dep_now :: int

text \<open>
  A call of one of the seventeen handlers of the account, video and comment routers.
  Where the route runs behind \<^verbatim>\<open>hasAccess\<close> the authenticated id comes first; the
  route parameter follows.
\<close>

datatype call =
    Register cookie_value cookie_value cookie_value cookie_value cookie_value
  | Login cookie_value cookie_value
  | FindAccount string
  | UpdateAccount string string account_body
  | Subscribe string string
  | Unsubscribe string string
  | DeleteAccount string string
  | AddVideo string string string string string
  | GetVideo string
  | UpdateVideo string string video_body
  | DeleteVideo string string
  | GetVideosByAccount string
  | GetRandomVideos
  | AddView string
  | GetComments string
  | AddComment string string "string option"
  | DeleteComment string string

text \<open>A handler that ends in one place: what it forwarded or answered is that alone.\<close>

definition once :: "store \<times> outcome \<Rightarrow> store \<times> outcome list" where
  "once result = (fst result, [snd result])"

text \<open>
  The request of a call: the store it leaves and, in order, everything that was
  forwarded or answered in it.
\<close>

fun run :: "deps \<Rightarrow> store \<Rightarrow> call \<Rightarrow> store \<times> outcome list" where
  "run w st (Register fn ln un em pw) =
     register (dep_bcrypt_hash w) (dep_create_account w) (dep_save_thrown w) st fn ln un em pw"
| "run w st (Login e p) =
     login (dep_bcrypt_compare w) (dep_findOne w) (dep_jwt w) (dep_env w) (dep_now w) st e p"
| "run w st (FindAccount t) = once (findSingleAccount (dep_thrown w) st t)"
| "run w st (UpdateAccount a t b) =
     once (updateAccountInformations (dep_thrown w) (dep_save_thrown w) (dep_now w) st a t b)"
| "run w st (Subscribe a t) = once (subscribeAccount (dep_thrown w) (dep_now w) st a t)"
| "run w st (Unsubscribe a t) = once (unsubscribeAccount (dep_thrown w) (dep_now w) st a t)"
| "run w st (DeleteAccount a t) = once (deleteSingleAccount (dep_thrown w) st a t)"
| "run w st (AddVideo a t d i v) = once (addNewVideo (dep_create_video w) st a t d i v)"
| "run w st (GetVideo t) =
     once (caught (t \<noteq> [] \<and> dep_isValid w t) (dep_thrown w t) st
            (getSingleVideo (dep_isValid w) st t))"
| "run w st (UpdateVideo a t b) =
     once (caught (t \<noteq> [] \<and> dep_isValid w t) (dep_thrown w t) st
            (updateSingleVideo (dep_isValid w) st a t b))"
| "run w st (DeleteVideo a t) =
     once (caught (t \<noteq> [] \<and> dep_isValid w t) (dep_thrown w t) st
            (deleteSingleVideo (dep_isValid w) st a t))"
| "run w st (GetVideosByAccount t) = once (getVideosByAccount (dep_thrown w) st t)"
| "run w st GetRandomVideos = once (getRandomVideos (dep_sample w) st)"
| "run w st (AddView t) = once (addViewToVideo (dep_thrown w) st t)"
| "run w st (GetComments t) =
     once (caught (t \<noteq> [] \<and> dep_isValid w t) (dep_thrown w t) st
            (getComments (dep_isValid w) st t))"
| "run w st (AddComment a t d) =
     once (addNewComment (dep_isValid w) (dep_create_comment w) (dep_save_thrown w) st a t d)"
| "run w st (DeleteComment a t) =
     once (caught (t \<noteq> [] \<and> dep_isValid w t) (dep_thrown w t) st
            (deleteComment (dep_isValid w) st a t))"



text \<open>
  The stores of the program: the empty one, and the one that the request of a call leaves
  of such a store.
\<close>

inductive reachable :: "store \<Rightarrow> bool" where
  initial: "reachable \<lparr>accounts = Map.empty, videos = Map.empty, comments = Map.empty\<rparr>"
| request: "reachable st \<Longrightarrow> reachable (fst (run w st c))"

section \<open>The subscription relation\<close>

text \<open>
  The two sets of an account id in a store, read from the stored document; an id without
  a document has none.
\<close>

definition subscribed_to :: "store \<Rightarrow> string \<Rightarrow> string list" where
  "subscribed_to st a = (case accounts st a of None \<Rightarrow> [] | Some d \<Rightarrow> subscribedUsers d)"

definition subscribers_of :: "store \<Rightarrow> string \<Rightarrow> string list" where
  "subscribers_of st a = (case accounts st a of None \<Rightarrow> [] | Some d \<Rightarrow> subscribers d)"

text \<open>The symmetry of one pair: \<open>B\<close> is in \<open>A.subscribed_to\<close> exactly if \<open>A\<close> is in \<open>B.subscribers\<close>.\<close>

definition symmetric_pair :: "store \<Rightarrow> string \<Rightarrow> string \<Rightarrow> bool" where
  "symmetric_pair st A B = ((B \<in> set (subscribed_to st A)) = (A \<in> set (subscribers_of st B)))"

section \<open>Example data\<close>

text \<open>
  Three registered accounts, a video and a comment of the first one, an id that no
  document has, and the stores built from them.
\<close>

definition ana_id :: string where "ana_id = ''650000000000000000000001''"
definition ben_id :: string where "ben_id = ''650000000000000000000002''"
definition cem_id :: string where "cem_id = ''650000000000000000000003''"
definition intro_id :: string where "intro_id = ''650000000000000000000011''"
definition nice_id :: string where "nice_id = ''650000000000000000000021''"
definition absent_id :: string where "absent_id = ''6500000000000000000000ff''"

definition ana :: account_document where
  "ana = new_account ''Ana'' '' '' ''ana'' ''ana@x.com'' ''hash-of-ana'' 0"

definition ben :: account_document where
  "ben = new_account ''Ben'' '' '' ''ben'' ''ben@x.com'' ''hash-of-ben'' 0"

definition cem :: account_document where
  "cem = new_account ''Cem'' '' '' ''cem'' ''cem@x.com'' ''hash-of-cem'' 0"

definition intro :: video where
  "intro = new_video ana_id ''Intro'' ''First video'' ''i.png'' ''v.mp4''"

definition nice :: comment where
  "nice = new_comment ana_id intro_id ''Nice''"

definition one_account :: store where
  "one_account = \<lparr>accounts = [ana_id \<mapsto> ana], videos = Map.empty, comments = Map.empty\<rparr>"

definition two_accounts :: store where
  "two_accounts = \<lparr>accounts = [ana_id \<mapsto> ana, ben_id \<mapsto> ben],
                    videos = Map.empty, comments = Map.empty\<rparr>"

definition three_accounts :: store where
  "three_accounts = \<lparr>accounts = [ana_id \<mapsto> ana, ben_id \<mapsto> ben, cem_id \<mapsto> cem],
                      videos = Map.empty, comments = Map.empty\<rparr>"

definition video_store :: store where
  "video_store = \<lparr>accounts = [ana_id \<mapsto> ana, ben_id \<mapsto> ben],
                   videos = [intro_id \<mapsto> intro], comments = [nice_id \<mapsto> nice]\<rparr>"

text \<open>An id test: twenty-four hexadecimal digits.\<close>

definition objectId_format :: "string \<Rightarrow> bool" where
  "objectId_format s = (length s = 24 \<and> list_all (\<lambda>c. c \<in> set ''0123456789abcdefABCDEF'') s)"

text \<open>
  A store that throws where an id does not cast to an ObjectId, and nothing else. The
  error of a failed cast carries no status.
\<close>

definition cast_error :: err where
  "cast_error = \<lparr>name = ''CastError'', message = ''Cast to ObjectId failed'', status = None, code = None\<rparr>"

definition strict_ids :: "string \<Rightarrow> err option" where
  "strict_ids i = (if objectId_format i then None else Some cast_error)"

text \<open>A body that sets the privileged fields and the password.\<close>

definition promote :: account_body where
  "promote = \<lparr>set_first_name = None, set_last_name = None, set_username = None, set_email = None,
              set_password = Some ''plain-text'', set_role = Some ''super_admin'',
              set_profile_image = None, set_createdAt = None, set_blocked = Some False,
              set_is_email_verified = Some True, set_subscribers = None,
              set_subscribedUsers = None\<rparr>"


text \<open>A body that sets the title of a video.\<close>

definition retitle :: video_body where
  "retitle = \<lparr>set_account_id = None, set_title = Some ''Renamed'', set_description = None,
              set_img_url = None, set_video_url = None, set_views = None, set_tags = None,
              set_likes = None, set_dislikes = None, set_comments_closed = None\<rparr>"

text \<open>
  A MAC for the examples, an environment with a token lifetime of an hour and a cookie
  lifetime of a day, and the claims of the first two accounts.
\<close>

definition toy_mac :: "string \<Rightarrow> string \<times> string \<times> int \<times> int \<Rightarrow> string" where
  "toy_mac k c = (case c of (i, f, a, e) \<Rightarrow> k @ ''/'' @ i @ ''/'' @ f @ ''/'' @ enc_int a @ enc_int e)"

definition toy_lib :: jwt_lib where
  "toy_lib = \<lparr>mac = toy_mac\<rparr>"

definition dev_env :: env where
  "dev_env = \<lparr>JWT_SECRET_KEY = ''secret'', JWT_EXPIRE = 3600, JWT_COOKIE_EXPIRE = 86400000,
              NODE_ENV = ''development''\<rparr>"

definition ana_claim :: account_claim where
  "ana_claim = \<lparr>claim_id = ana_id, claim_first_name = ''Ana''\<rparr>"

definition ben_claim :: account_claim where
  "ben_claim = \<lparr>claim_id = ben_id, claim_first_name = ''Ben''\<rparr>"

text \<open>
  Requests: without the cookie, with a parsed JSON object as the cookie, and with a
  given string as the cookie.
\<close>

definition no_cookie :: request where
  "no_cookie = \<lparr>cookies = (\<lambda>c. JUndefined), account = None\<rparr>"

definition object_cookie :: request where
  "object_cookie = \<lparr>cookies = (\<lambda>c. if c = ''access_token'' then JObject else JUndefined),
                    account = None\<rparr>"

definition token_cookie :: "string \<Rightarrow> request" where
  "token_cookie tok = \<lparr>cookies = (\<lambda>c. if c = ''access_token'' then JString tok else JUndefined),
                       account = None\<rparr>"

text \<open>
  The outside of a request for the examples. The store throws on an id that does not
  cast; bcrypt throws on a password that is no string; the account query looks through
  the three example ids and throws on a value that is no string;
  \<^verbatim>\<open>Account.create\<close> stores a registration of four strings and a hashed password
  under a given id, with the defaults of the schema, and rejects every other;
  \<^verbatim>\<open>Video.create\<close> and \<^verbatim>\<open>Comment.create\<close> reject every document.
\<close>

definition type_error :: err where
  "type_error = \<lparr>name = ''Error'', message = ''data and hash must be strings'', status = None, code = None\<rparr>"

definition validation_error :: err where
  "validation_error = \<lparr>name = ''ValidationError'', message = ''Validation failed'', status = None, code = None\<rparr>"

definition toy_findOne ::
  "(string \<rightharpoonup> account_document) \<Rightarrow> cookie_value \<Rightarrow> err + (string \<times> account_document) option" where
  "toy_findOne coll q =
     (case q of
        JString s \<Rightarrow>
          (case filter (\<lambda>i. case coll i of None \<Rightarrow> False | Some a \<Rightarrow> email a = s \<or> username a = s)
                  [ana_id, ben_id, cem_id] of
             [] \<Rightarrow> Inr None
           | i # rest \<Rightarrow> (case coll i of None \<Rightarrow> Inr None | Some a \<Rightarrow> Inr (Some (i, a))))
      | _ \<Rightarrow> Inl cast_error)"

definition toy_create :: "string \<Rightarrow> registration \<Rightarrow> err + string \<times> account" where
  "toy_create newId r =
     (case (reg_first_name r, reg_last_name r, reg_username r, reg_email r, reg_password r) of
        (JString f, JString l, JString u, JString e, Some h) \<Rightarrow>
          Inr (newId,
               \<lparr>first_name = trim f, last_name = Some l, username = trim u, email = e, password = h,
                role = ''user'', profile_image = ''profile_image.jpg'', createdAt = 0,
                blocked = False, is_email_verified = False, updatedAt = 0\<rparr>)
      | _ \<Rightarrow> Inl validation_error)"

definition toy_deps :: deps where
  "toy_deps = \<lparr>dep_isValid = objectId_format,
               dep_thrown = strict_ids,
               dep_save_thrown = None,
               dep_bcrypt_hash = (\<lambda>p. case p of JString s \<Rightarrow> Inr (''hash-of-'' @ s) | _ \<Rightarrow> Inl type_error),
               dep_bcrypt_compare = (\<lambda>p h. case p of JString s \<Rightarrow> Inr (h = ''hash-of-'' @ s)
                                                   | _ \<Rightarrow> Inl type_error),
               dep_findOne = toy_findOne,
               dep_create_account = toy_create ana_id,
               dep_create_video = Inl validation_error,
               dep_create_comment = Inl validation_error,
               dep_sample = Inr Map.empty,
               dep_jwt = toy_lib, dep_env = dev_env, dep_now = 1000000\<rparr>"

section \<open>Facts about the model, the handlers and the examples\<close>

lemmas id_defs = ana_id_def ben_id_def cem_id_def intro_id_def nice_id_def absent_id_def

lemmas example_defs =
  ana_def ben_def cem_def intro_def nice_def one_account_def two_accounts_def three_accounts_def
  video_store_def new_account_def new_video_def new_comment_def


lemmas video_handler_defs =
  addNewVideo_def getSingleVideo_def updateSingleVideo_def deleteSingleVideo_def
  getVideosByAccount_def getRandomVideos_def addViewToVideo_def getComments_def
  addNewComment_def deleteComment_def caught_def

lemma strict_dropped:
  "strict ''subscribedUsers'' upd = (\<lambda>d. d)" "strict ''subscribers'' upd = (\<lambda>d. d)"
  by (simp_all add: strict_def Account_paths_def)


lemma subscribe_sets:
  "subscribed_to (fst (subscribeAccount thrown now st A B)) X = subscribed_to st X"
  "subscribers_of (fst (subscribeAccount thrown now st A B)) X = subscribers_of st X"
  by (auto simp: subscribeAccount_def subscribed_to_def subscribers_of_def strict_dropped
        Account_findByIdAndUpdate_def findByIdAndUpdate_def split: option.splits sum.splits)

lemma unsubscribe_sets:
  "subscribed_to (fst (unsubscribeAccount thrown now st A B)) X = subscribed_to st X"
  "subscribers_of (fst (unsubscribeAccount thrown now st A B)) X = subscribers_of st X"
  by (auto simp: unsubscribeAccount_def subscribed_to_def subscribers_of_def strict_dropped
        Account_findByIdAndUpdate_def findByIdAndUpdate_def split: option.splits sum.splits)

lemma delete_sets:
  "subscribed_to (fst (deleteSingleAccount thrown st A D)) X
     = (if X = D \<and> D \<noteq> [] \<and> A = D \<and> thrown D = None then [] else subscribed_to st X)"
  "subscribers_of (fst (deleteSingleAccount thrown st A D)) X
     = (if X = D \<and> D \<noteq> [] \<and> A = D \<and> thrown D = None then [] else subscribers_of st X)"
  by (auto simp: deleteSingleAccount_def subscribed_to_def subscribers_of_def
        Account_findByIdAndDelete_def findByIdAndDelete_def split: option.splits sum.splits)

lemma set_account_sets:
  "subscribedUsers (set_account b d) = subscribedUsers d"
  "subscribers (set_account b d) = subscribers d"
  by (simp_all add: set_account_def cast_set_def set_path_def strict_dropped split: option.splits)


lemma update_sets:
  "subscribed_to (fst (updateAccountInformations thrown sv now st A T b)) X = subscribed_to st X"
  "subscribers_of (fst (updateAccountInformations thrown sv now st A T b)) X = subscribers_of st X"
  by (auto simp: updateAccountInformations_def subscribed_to_def subscribers_of_def set_account_sets
        Account_findByIdAndUpdate_def findByIdAndUpdate_def split: option.splits sum.splits)








text \<open>No request of a call stores an edge in a store that holds none.\<close>

lemma run_no_edges:
  assumes "\<And>X. subscribed_to st X = [] \<and> subscribers_of st X = []"
  shows "subscribed_to (fst (run w st c)) X = [] \<and> subscribers_of (fst (run w st c)) X = []"
proof (cases c)
  case (Register fn ln un em pw)
  with assms[of X] show ?thesis
    by (auto simp: register_def hashUserPassword_def subscribed_to_def subscribers_of_def stored_def
          split: sum.splits option.splits prod.splits)
next
  case (Login e p)
  with assms[of X] show ?thesis
    by (auto simp: login_def comparePassword_def split: sum.splits option.splits prod.splits)
next
  case (UpdateAccount a t b)
  with assms[of X] show ?thesis by (simp add: once_def update_sets)
next
  case (Subscribe a t)
  with assms[of X] show ?thesis by (simp add: once_def subscribe_sets)
next
  case (Unsubscribe a t)
  with assms[of X] show ?thesis by (simp add: once_def unsubscribe_sets)
next
  case (DeleteAccount a t)
  with assms[of X] show ?thesis by (simp add: once_def delete_sets)
qed (use assms[of X] in \<open>auto simp: once_def findSingleAccount_def Account_findById_def
       video_handler_defs Let_def subscribed_to_def subscribers_of_def
       split: sum.splits option.splits if_splits\<close>)

lemma reachable_no_edges:
  "reachable st \<Longrightarrow> subscribed_to st X = [] \<and> subscribers_of st X = []"
proof (induction arbitrary: X rule: reachable.induct)
  case initial
  show ?case by (simp add: subscribed_to_def subscribers_of_def)
next
  case (request st w c)
  show ?case using run_no_edges[of st w c X] request.IH by blast
qed

text \<open>The first two example accounts, registered one after the other.\<close>

lemma reachable_examples: "reachable one_account" "reachable two_accounts"
proof -
  let ?empty = "\<lparr>accounts = Map.empty, videos = Map.empty, comments = Map.empty\<rparr>"
  have a: "fst (run toy_deps ?empty
                  (Register (JString ''Ana'') (JString '' '') (JString ''ana'')
                     (JString ''ana@x.com'') (JString ''ana''))) = one_account"
    by (simp add: toy_deps_def register_def hashUserPassword_def toy_create_def stored_def
          trim_def whitespace_def example_defs)
  have b: "fst (run (toy_deps\<lparr>dep_create_account := toy_create ben_id\<rparr>) one_account
                  (Register (JString ''Ben'') (JString '' '') (JString ''ben'')
                     (JString ''ben@x.com'') (JString ''ben''))) = two_accounts"
    by (simp add: toy_deps_def register_def hashUserPassword_def toy_create_def stored_def
          trim_def whitespace_def example_defs)
  show one: "reachable one_account"
    using reachable.request[OF reachable.initial, of toy_deps
            "Register (JString ''Ana'') (JString '' '') (JString ''ana'')
               (JString ''ana@x.com'') (JString ''ana'')"] a
    by simp
  show "reachable two_accounts"
    using reachable.request[OF one, of "toy_deps\<lparr>dep_create_account := toy_create ben_id\<rparr>"
            "Register (JString ''Ben'') (JString '' '') (JString ''ben'')
               (JString ''ben@x.com'') (JString ''ben'')"] b
    by simp
qed

lemma objectId_format_examples:
  "objectId_format ana_id" "objectId_format ben_id" "objectId_format intro_id"
  "objectId_format nice_id" "objectId_format absent_id" "\<not> objectId_format ''abc''"
  by (simp_all add: objectId_format_def id_defs)

lemma strict_ids_examples:
  "strict_ids ana_id = None" "strict_ids ben_id = None" "strict_ids absent_id = None"
  "strict_ids ''abc'' = Some cast_error"
  by (simp_all add: strict_ids_def objectId_format_examples)

lemma video_store_facts:
  "intro_id \<noteq> [] \<and> objectId_format intro_id \<and> videos video_store intro_id = Some intro
   \<and> ben_id \<noteq> video.account_id intro"
  "nice_id \<noteq> [] \<and> objectId_format nice_id \<and> comments video_store nice_id = Some nice
   \<and> ben_id \<noteq> comment.account_id nice"
  "absent_id \<noteq> [] \<and> objectId_format absent_id \<and> videos video_store absent_id = None
   \<and> comments video_store absent_id = None"
  by (simp_all add: objectId_format_def id_defs example_defs)

text \<open>The opaque string of a token is read back as the token.\<close>

lemma dec_nat_enc_nat: "dec_nat (enc_nat n @ rest) = Some (n, rest)"
  by (simp add: dec_nat_def enc_nat_def dropWhile_append3 takeWhile_tail)

lemma dec_str_enc_str: "dec_str (enc_str s @ rest) = Some (s, rest)"
  by (simp add: dec_str_def enc_str_def dec_nat_enc_nat)

lemma dec_int_enc_int: "dec_int (enc_int i @ rest) = Some (i, rest)"
  by (simp add: dec_int_def enc_int_def dec_nat_enc_nat)

lemma deserialize_serialize: "deserialize (serialize t) = Some t"
  by (simp add: deserialize_def serialize_def dec_str_enc_str dec_int_enc_int)

lemma serialize_not_empty: "serialize t \<noteq> []"
  by (simp add: serialize_def enc_str_def enc_nat_def)

lemma parse_issue:
  "now' < now + ttl \<Longrightarrow> parse lib (issue lib claim key ttl now) key now' = Inr claim"
  by (simp add: parse_def issue_def sign_def deserialize_serialize)

text \<open>
  The two failures of parsing: a token that has expired, and a key under which the MAC
  of the claim is another.
\<close>

lemma parse_expired:
  "now + ttl \<le> now' \<Longrightarrow> parse lib (issue lib claim key ttl now) key now' = Inl TokenExpired"
  by (simp add: parse_def issue_def sign_def deserialize_serialize)

lemma parse_other_key:
  "mac lib key' (claim_id claim, claim_first_name claim, now, now + ttl)
     \<noteq> mac lib key (claim_id claim, claim_first_name claim, now, now + ttl)
   \<Longrightarrow> parse lib (issue lib claim key ttl now) key' now' = Inl TokenInvalid"
  by (auto simp: parse_def issue_def sign_def deserialize_serialize)

lemma parse_no_token: "parse lib ''abc'' key now = Inl TokenInvalid"
  by (simp add: parse_def deserialize_def dec_str_def dec_nat_def)

text \<open>
  Where bcrypt throws on comparing, \<^verbatim>\<open>login\<close> forwards twice: the error of bcrypt from
  \<^verbatim>\<open>_comparePassword\<close>, then its own for a wrong password.
\<close>

lemma login_forwards_twice:
  "run toy_deps one_account (Login (JString ''ana'') (JNumber 7))
     = (one_account, [Next type_error, Next (CustomError ''Your password is not correct.'' 400)])"
  by (simp add: toy_deps_def login_def comparePassword_def toy_findOne_def example_defs id_defs)

section \<open>C1: symmetry of the subscription relation\<close>

text \<open>
  C1. The two updates of \<^verbatim>\<open>subscribeAccount\<close> and of \<^verbatim>\<open>unsubscribeAccount\<close> name
  fields that are no paths of the schema, so for every store, every two ids, whether or
  not they have documents, and whatever the store throws, the two sets of every account
  are after the call what they were before, and so is the symmetry of every pair \<open>X\<close>,
  \<open>Y\<close> (\<open>Y\<close> is in \<open>X.subscribed_to\<close> exactly if \<open>X\<close> is in \<open>Y.subscribers\<close>). In
  a store of the program, one that requests of the seventeen handlers have made of the
  empty store, every pair is symmetric after \<^verbatim>\<open>subscribeAccount\<close>, after
  \<^verbatim>\<open>unsubscribeAccount\<close> and after \<^verbatim>\<open>deleteSingleAccount\<close>: both sets of every
  account are empty there.
\<close>

theorem symmetry_preserved:
  "subscribed_to (fst (subscribeAccount thrown now st A B)) X = subscribed_to st X
   \<and> subscribers_of (fst (subscribeAccount thrown now st A B)) X = subscribers_of st X
   \<and> subscribed_to (fst (unsubscribeAccount thrown now st A B)) X = subscribed_to st X
   \<and> subscribers_of (fst (unsubscribeAccount thrown now st A B)) X = subscribers_of st X
   \<and> symmetric_pair (fst (subscribeAccount thrown now st A B)) X Y = symmetric_pair st X Y
   \<and> symmetric_pair (fst (unsubscribeAccount thrown now st A B)) X Y = symmetric_pair st X Y
   \<and> (reachable st
      \<longrightarrow> symmetric_pair (fst (subscribeAccount thrown now st A B)) X Y
        \<and> symmetric_pair (fst (unsubscribeAccount thrown now st A B)) X Y
        \<and> symmetric_pair (fst (deleteSingleAccount thrown st actor D)) X Y
        \<and> subscribed_to st X = [] \<and> subscribers_of st X = [])"
proof -
  have a: "subscribed_to (fst (subscribeAccount thrown now st A B)) X = subscribed_to st X
     \<and> subscribers_of (fst (subscribeAccount thrown now st A B)) X = subscribers_of st X
     \<and> subscribed_to (fst (unsubscribeAccount thrown now st A B)) X = subscribed_to st X
     \<and> subscribers_of (fst (unsubscribeAccount thrown now st A B)) X = subscribers_of st X"
    by (simp add: subscribe_sets unsubscribe_sets)
  have b: "symmetric_pair (fst (subscribeAccount thrown now st A B)) X Y = symmetric_pair st X Y
     \<and> symmetric_pair (fst (unsubscribeAccount thrown now st A B)) X Y = symmetric_pair st X Y"
    by (simp add: symmetric_pair_def subscribe_sets unsubscribe_sets)
  have c: "symmetric_pair (fst (subscribeAccount thrown now st A B)) X Y
        \<and> symmetric_pair (fst (unsubscribeAccount thrown now st A B)) X Y
        \<and> symmetric_pair (fst (deleteSingleAccount thrown st actor D)) X Y
        \<and> subscribed_to st X = [] \<and> subscribers_of st X = []" if r: "reachable st"
    using reachable_no_edges[OF r, of X] reachable_no_edges[OF r, of Y]
    by (simp add: symmetric_pair_def subscribe_sets unsubscribe_sets delete_sets)
  from a b c show ?thesis by blast
qed

text \<open>
  Of two registered accounts the first subscribes to the second and to an id without a
  document, unsubscribes, and the second is deleted.
\<close>

theorem symmetry_preserved_witness:
  "reachable two_accounts
   \<and> accounts two_accounts absent_id = None
   \<and> subscribed_to (fst (subscribeAccount strict_ids 5000 two_accounts ana_id ben_id)) ana_id
       = subscribed_to two_accounts ana_id
   \<and> subscribed_to two_accounts ana_id = []
   \<and> symmetric_pair (fst (subscribeAccount strict_ids 5000 two_accounts ana_id ben_id)) ana_id ben_id
   \<and> symmetric_pair (fst (subscribeAccount strict_ids 5000 two_accounts ana_id absent_id)) ana_id absent_id
   \<and> symmetric_pair (fst (unsubscribeAccount strict_ids 5000 two_accounts ana_id ben_id)) ana_id ben_id
   \<and> symmetric_pair (fst (deleteSingleAccount strict_ids two_accounts ben_id ben_id)) ana_id ben_id"
proof -
  have a: "accounts two_accounts absent_id = None"
    by (simp add: two_accounts_def id_defs)
  show ?thesis
    using symmetry_preserved[of strict_ids 5000 two_accounts ana_id ben_id ana_id ben_id ben_id ben_id]
          symmetry_preserved[of strict_ids 5000 two_accounts ana_id absent_id ana_id absent_id ben_id ben_id]
          reachable_examples(2) a
    by blast
qed

section \<open>C2: mutation by a non-owner\<close>

text \<open>
  C2. Where a video is in the store and the authenticated id differs from the video's
  \<^verbatim>\<open>account_id\<close>, \<^verbatim>\<open>updateSingleVideo\<close> and \<^verbatim>\<open>deleteSingleVideo\<close> forward a
  \<^verbatim>\<open>CustomError\<close> that is answered with HTTP 400 and \<^verbatim>\<open>success: false\<close>, and they
  leave the store, hence every field of the video, as it was. \<^verbatim>\<open>deleteComment\<close> by
  an id other than the comment's \<^verbatim>\<open>account_id\<close> answers with HTTP 400 and
  \<^verbatim>\<open>success: false\<close> and leaves the store as it was. The two id hypotheses are those of
  a stored document's id: it is not empty and passes the id test.
\<close>

theorem non_owner_mutation_refused:
  "(videoId \<noteq> [] \<and> isValid videoId \<and> videos st videoId = Some v \<and> actor \<noteq> video.account_id v
      \<longrightarrow> updateSingleVideo isValid st actor videoId reqBody
            = (st, Next (CustomError ''You can update only your account'' 400))
        \<and> answer (snd (updateSingleVideo isValid st actor videoId reqBody))
            = Some \<lparr>statusCode = 400, cookie_ops = [], body = Message False ''You can update only your account''\<rparr>
        \<and> videos (fst (updateSingleVideo isValid st actor videoId reqBody)) videoId = Some v
        \<and> deleteSingleVideo isValid st actor videoId
            = (st, Next (CustomError ''You can delete only your video'' 400))
        \<and> answer (snd (deleteSingleVideo isValid st actor videoId))
            = Some \<lparr>statusCode = 400, cookie_ops = [], body = Message False ''You can delete only your video''\<rparr>
        \<and> videos (fst (deleteSingleVideo isValid st actor videoId)) videoId = Some v)
   \<and> (commentId \<noteq> [] \<and> isValid commentId \<and> comments st commentId = Some c \<and> actor \<noteq> comment.account_id c
      \<longrightarrow> deleteComment isValid st actor commentId
            = (st, Respond \<lparr>statusCode = 400, cookie_ops = [], body = Message False ''You cannot delete this comment.''\<rparr>)
        \<and> comments (fst (deleteComment isValid st actor commentId)) commentId = Some c)"
  by (auto simp: updateSingleVideo_def deleteSingleVideo_def deleteComment_def
        customErrorHandler_def CustomError_def)

text \<open>The second account attempts the three mutations on the first one's video and comment.\<close>

theorem non_owner_mutation_refused_witness:
  "intro_id \<noteq> [] \<and> objectId_format intro_id \<and> videos video_store intro_id = Some intro
   \<and> ben_id \<noteq> video.account_id intro
   \<and> updateSingleVideo objectId_format video_store ben_id intro_id retitle
        = (video_store, Next (CustomError ''You can update only your account'' 400))
   \<and> answer (snd (updateSingleVideo objectId_format video_store ben_id intro_id retitle))
        = Some \<lparr>statusCode = 400, cookie_ops = [], body = Message False ''You can update only your account''\<rparr>
   \<and> videos (fst (updateSingleVideo objectId_format video_store ben_id intro_id retitle)) intro_id = Some intro
   \<and> deleteSingleVideo objectId_format video_store ben_id intro_id
        = (video_store, Next (CustomError ''You can delete only your video'' 400))
   \<and> answer (snd (deleteSingleVideo objectId_format video_store ben_id intro_id))
        = Some \<lparr>statusCode = 400, cookie_ops = [], body = Message False ''You can delete only your video''\<rparr>
   \<and> videos (fst (deleteSingleVideo objectId_format video_store ben_id intro_id)) intro_id = Some intro
   \<and> nice_id \<noteq> [] \<and> objectId_format nice_id \<and> comments video_store nice_id = Some nice
   \<and> ben_id \<noteq> comment.account_id nice
   \<and> deleteComment objectId_format video_store ben_id nice_id
        = (video_store, Respond \<lparr>statusCode = 400, cookie_ops = [], body = Message False ''You cannot delete this comment.''\<rparr>)
   \<and> comments (fst (deleteComment objectId_format video_store ben_id nice_id)) nice_id = Some nice"
  using non_owner_mutation_refused[of intro_id objectId_format video_store intro ben_id retitle nice_id nice]
        video_store_facts(1,2)
  by blast

section \<open>C3: the failures of the access guard\<close>

text \<open>
  C3. The guard takes the cookie for absent by \<^verbatim>\<open>!token\<close>: a request without the
  cookie, or with a falsy value. For such a request \<^verbatim>\<open>hasAccess\<close> forwards a
  \<^verbatim>\<open>CustomError\<close> answered with HTTP 401; for a request whose cookie is present (truthy)
  and not a string it forwards one answered with HTTP 400. In both cases the request is
  left as it was, so no identity is attached, and the handler behind the guard does not
  run: the store is the one before.
\<close>

theorem guard_rejects_missing_and_malformed:
  "(\<not> truthy (cookies req ''access_token'')
      \<longrightarrow> hasAccess lib ev now req
            = (req, Next (CustomError ''Please provide a token or authenticate.'' 401))
        \<and> answer (snd (hasAccess lib ev now req))
            = Some \<lparr>statusCode = 401, cookie_ops = [],
                     body = Message False ''Please provide a token or authenticate.''\<rparr>
        \<and> account (fst (hasAccess lib ev now req)) = account req
        \<and> guarded lib ev now handler st req
            = (st, Next (CustomError ''Please provide a token or authenticate.'' 401)))
   \<and> (truthy (cookies req ''access_token'') \<and> \<not> typeof_string (cookies req ''access_token'')
      \<longrightarrow> hasAccess lib ev now req = (req, Next (CustomError ''Invalid token format.'' 400))
        \<and> answer (snd (hasAccess lib ev now req))
            = Some \<lparr>statusCode = 400, cookie_ops = [], body = Message False ''Invalid token format.''\<rparr>
        \<and> account (fst (hasAccess lib ev now req)) = account req
        \<and> guarded lib ev now handler st req = (st, Next (CustomError ''Invalid token format.'' 400)))"
  by (simp add: hasAccess_def guarded_def Let_def customErrorHandler_def CustomError_def)

text \<open>A request without the cookie, and one whose cookie is a parsed JSON object.\<close>

theorem guard_rejects_missing_and_malformed_witness:
  "cookies no_cookie ''access_token'' = JUndefined
   \<and> \<not> truthy (cookies no_cookie ''access_token'')
   \<and> hasAccess toy_lib dev_env 1000 no_cookie
        = (no_cookie, Next (CustomError ''Please provide a token or authenticate.'' 401))
   \<and> answer (snd (hasAccess toy_lib dev_env 1000 no_cookie))
        = Some \<lparr>statusCode = 401, cookie_ops = [],
                 body = Message False ''Please provide a token or authenticate.''\<rparr>
   \<and> guarded toy_lib dev_env 1000 (\<lambda>s r. deleteSingleAccount strict_ids s ana_id ana_id) two_accounts no_cookie
        = (two_accounts, Next (CustomError ''Please provide a token or authenticate.'' 401))
   \<and> truthy (cookies object_cookie ''access_token'')
   \<and> \<not> typeof_string (cookies object_cookie ''access_token'')
   \<and> hasAccess toy_lib dev_env 1000 object_cookie
        = (object_cookie, Next (CustomError ''Invalid token format.'' 400))
   \<and> answer (snd (hasAccess toy_lib dev_env 1000 object_cookie))
        = Some \<lparr>statusCode = 400, cookie_ops = [], body = Message False ''Invalid token format.''\<rparr>
   \<and> guarded toy_lib dev_env 1000 (\<lambda>s r. deleteSingleAccount strict_ids s ana_id ana_id) two_accounts object_cookie
        = (two_accounts, Next (CustomError ''Invalid token format.'' 400))"
proof -
  have a: "cookies no_cookie ''access_token'' = JUndefined
     \<and> \<not> truthy (cookies no_cookie ''access_token'')"
    by (simp add: no_cookie_def)
  have b: "truthy (cookies object_cookie ''access_token'')
     \<and> \<not> typeof_string (cookies object_cookie ''access_token'')"
    by (simp add: object_cookie_def)
  show ?thesis
    using guard_rejects_missing_and_malformed[of no_cookie toy_lib dev_env 1000
            "\<lambda>s r. deleteSingleAccount strict_ids s ana_id ana_id" two_accounts]
          guard_rejects_missing_and_malformed[of object_cookie toy_lib dev_env 1000
            "\<lambda>s r. deleteSingleAccount strict_ids s ana_id ana_id" two_accounts] a b
    by blast
qed

section \<open>C4: the round trip of a token\<close>

text \<open>
  C4. For every claim, every key, every MAC and every lifetime: a token issued with the
  key and parsed with the same key before its expiry, in particular at once when the
  lifetime is positive, yields the claim it was issued for. The token that
  \<^verbatim>\<open>_sendToken\<close> puts in the cookie is that token for the account's \<^verbatim>\<open>id\<close> and
  \<^verbatim>\<open>first_name\<close>, issued at the second of the clock with \<open>JWT_EXPIRE\<close> as its
  lifetime, and \<^verbatim>\<open>hasAccess\<close> attaches that claim to a request that carries the token
  before the second of its expiry.
\<close>

theorem token_round_trip:
  "(now' < now + ttl \<longrightarrow> parse lib (issue lib claim key ttl now) key now' = Inr claim)
   \<and> (0 < ttl \<longrightarrow> parse lib (issue lib claim key ttl now) key now = Inr claim)
   \<and> sendToken lib ev ms accountId acc
       = \<lparr>statusCode = 200,
          cookie_ops = [SetCookie ''access_token''
                          (issue lib \<lparr>claim_id = accountId, claim_first_name = first_name acc\<rparr>
                             (JWT_SECRET_KEY ev) (JWT_EXPIRE ev) (ms div 1000))
                          True (ms + JWT_COOKIE_EXPIRE ev) (NODE_ENV ev \<noteq> ''development'')],
          body = TokenData True
                   (issue lib \<lparr>claim_id = accountId, claim_first_name = first_name acc\<rparr>
                      (JWT_SECRET_KEY ev) (JWT_EXPIRE ev) (ms div 1000))
                   \<lparr>claim_id = accountId, claim_first_name = first_name acc\<rparr>\<rparr>
   \<and> (ms' div 1000 < ms div 1000 + JWT_EXPIRE ev
        \<and> cookies req ''access_token''
            = JString (issue lib claim (JWT_SECRET_KEY ev) (JWT_EXPIRE ev) (ms div 1000))
      \<longrightarrow> hasAccess lib ev ms' req = (req\<lparr>account := Some claim\<rparr>, Pass))"
proof -
  have a: "now' < now + ttl \<longrightarrow> parse lib (issue lib claim key ttl now) key now' = Inr claim"
    by (simp add: parse_issue)
  have b: "0 < ttl \<longrightarrow> parse lib (issue lib claim key ttl now) key now = Inr claim"
    by (simp add: parse_issue)
  have c: "sendToken lib ev ms accountId acc
       = \<lparr>statusCode = 200,
          cookie_ops = [SetCookie ''access_token''
                          (issue lib \<lparr>claim_id = accountId, claim_first_name = first_name acc\<rparr>
                             (JWT_SECRET_KEY ev) (JWT_EXPIRE ev) (ms div 1000))
                          True (ms + JWT_COOKIE_EXPIRE ev) (NODE_ENV ev \<noteq> ''development'')],
          body = TokenData True
                   (issue lib \<lparr>claim_id = accountId, claim_first_name = first_name acc\<rparr>
                      (JWT_SECRET_KEY ev) (JWT_EXPIRE ev) (ms div 1000))
                   \<lparr>claim_id = accountId, claim_first_name = first_name acc\<rparr>\<rparr>"
    by (simp add: sendToken_def Let_def)
  have d: "hasAccess lib ev ms' req = (req\<lparr>account := Some claim\<rparr>, Pass)"
    if "ms' div 1000 < ms div 1000 + JWT_EXPIRE ev
        \<and> cookies req ''access_token''
            = JString (issue lib claim (JWT_SECRET_KEY ev) (JWT_EXPIRE ev) (ms div 1000))"
    using that parse_issue[of "ms' div 1000" "ms div 1000" "JWT_EXPIRE ev" lib claim "JWT_SECRET_KEY ev"]
    by (simp add: hasAccess_def Let_def issue_def serialize_not_empty)
  from a b c d show ?thesis by blast
qed

text \<open>
  The tokens of the first two accounts, issued at second 1000 for an hour and parsed at
  once, and the first one in the cookie of a request half an hour later.
\<close>

theorem token_round_trip_witness:
  "(0::int) < 3600
   \<and> parse toy_lib (issue toy_lib ana_claim ''secret'' 3600 1000) ''secret'' 1000 = Inr ana_claim
   \<and> parse toy_lib (issue toy_lib ben_claim ''secret'' 3600 1000) ''secret'' 1000 = Inr ben_claim
   \<and> ana_claim \<noteq> ben_claim
   \<and> (2800000::int) div 1000 < 1000000 div 1000 + JWT_EXPIRE dev_env
   \<and> cookies (token_cookie (issue toy_lib ana_claim (JWT_SECRET_KEY dev_env) (JWT_EXPIRE dev_env)
                 (1000000 div 1000))) ''access_token''
       = JString (issue toy_lib ana_claim (JWT_SECRET_KEY dev_env) (JWT_EXPIRE dev_env) (1000000 div 1000))
   \<and> hasAccess toy_lib dev_env 2800000
        (token_cookie (issue toy_lib ana_claim (JWT_SECRET_KEY dev_env) (JWT_EXPIRE dev_env)
           (1000000 div 1000)))
       = ((token_cookie (issue toy_lib ana_claim (JWT_SECRET_KEY dev_env) (JWT_EXPIRE dev_env)
             (1000000 div 1000)))\<lparr>account := Some ana_claim\<rparr>, Pass)"
proof -
  have t: "(0::int) < 3600" by simp
  have n: "ana_claim \<noteq> ben_claim" by (simp add: ana_claim_def ben_claim_def id_defs)
  have h: "(2800000::int) div 1000 < 1000000 div 1000 + JWT_EXPIRE dev_env
     \<and> cookies (token_cookie (issue toy_lib ana_claim (JWT_SECRET_KEY dev_env) (JWT_EXPIRE dev_env)
                 (1000000 div 1000))) ''access_token''
       = JString (issue toy_lib ana_claim (JWT_SECRET_KEY dev_env) (JWT_EXPIRE dev_env) (1000000 div 1000))"
    by (simp add: dev_env_def token_cookie_def)
  show ?thesis
    using token_round_trip[of 1000 1000 3600 toy_lib ana_claim "''secret''" dev_env 1000000 ana_id ana
            2800000 "token_cookie (issue toy_lib ana_claim (JWT_SECRET_KEY dev_env) (JWT_EXPIRE dev_env)
                 (1000000 div 1000))"]
          token_round_trip[of 1000 1000 3600 toy_lib ben_claim "''secret''" dev_env 1000000 ben_id ben
            2800000 "token_cookie (issue toy_lib ana_claim (JWT_SECRET_KEY dev_env) (JWT_EXPIRE dev_env)
                 (1000000 div 1000))"]
          t n h
    by blast
qed

section \<open>C5: a resource that is not in the store\<close>

text \<open>
  C5, as amended. For a well-formed video id that is not in the store,
  \<^verbatim>\<open>updateSingleVideo\<close> and \<^verbatim>\<open>deleteSingleVideo\<close> forward a not-found error
  (HTTP 404), whoever the authenticated id is, so before any comparison of owners. For a
  well-formed comment id that is not in the store, \<^verbatim>\<open>deleteComment\<close> answers with HTTP
  200 and \<^verbatim>\<open>success: true\<close>, again whoever the authenticated id is. Both answers differ
  from the one for an ownership mismatch (HTTP 400). An id that fails the id test is
  answered by each of the three handlers with a validation error (HTTP 400), whether or
  not the store has a document for it, and not with not-found.
\<close>

theorem missing_resource_reported_first:
  "(videoId \<noteq> [] \<and> isValid videoId \<and> videos st videoId = None
      \<longrightarrow> updateSingleVideo isValid st actor videoId reqBody
            = (st, Next (CustomError ''The video you are looking for could not be found.'' 404))
        \<and> deleteSingleVideo isValid st actor videoId
            = (st, Next (CustomError ''The video you are looking for could not be found.'' 404))
        \<and> answer (Next (CustomError ''The video you are looking for could not be found.'' 404))
            = Some \<lparr>statusCode = 404, cookie_ops = [],
                     body = Message False ''The video you are looking for could not be found.''\<rparr>)
   \<and> (commentId \<noteq> [] \<and> isValid commentId \<and> comments st commentId = None
      \<longrightarrow> deleteComment isValid st actor commentId
            = (st, Respond \<lparr>statusCode = 200, cookie_ops = [],
                             body = Message True ''Comment couldn't be find.''\<rparr>))
   \<and> (videoId \<noteq> [] \<and> \<not> isValid videoId
      \<longrightarrow> updateSingleVideo isValid st actor videoId reqBody
            = (st, Next (CustomError ''Please provide a verified id.'' 400))
        \<and> deleteSingleVideo isValid st actor videoId
            = (st, Next (CustomError ''Please provide a verified id.'' 400))
        \<and> answer (Next (CustomError ''Please provide a verified id.'' 400))
            = Some \<lparr>statusCode = 400, cookie_ops = [],
                     body = Message False ''Please provide a verified id.''\<rparr>)
   \<and> (commentId \<noteq> [] \<and> \<not> isValid commentId
      \<longrightarrow> deleteComment isValid st actor commentId
            = (st, Next (CustomError ''Please provide a verified comment id.'' 400))
        \<and> answer (Next (CustomError ''Please provide a verified comment id.'' 400))
            = Some \<lparr>statusCode = 400, cookie_ops = [],
                     body = Message False ''Please provide a verified comment id.''\<rparr>)"
  by (simp add: updateSingleVideo_def deleteSingleVideo_def deleteComment_def
        customErrorHandler_def CustomError_def)

text \<open>An id that no video and no comment has, and an id that fails the id test.\<close>

theorem missing_resource_reported_first_witness:
  "absent_id \<noteq> [] \<and> objectId_format absent_id \<and> videos video_store absent_id = None
   \<and> comments video_store absent_id = None
   \<and> updateSingleVideo objectId_format video_store ben_id absent_id retitle
        = (video_store, Next (CustomError ''The video you are looking for could not be found.'' 404))
   \<and> deleteSingleVideo objectId_format video_store ben_id absent_id
        = (video_store, Next (CustomError ''The video you are looking for could not be found.'' 404))
   \<and> deleteComment objectId_format video_store ben_id absent_id
        = (video_store, Respond \<lparr>statusCode = 200, cookie_ops = [],
                                   body = Message True ''Comment couldn't be find.''\<rparr>)
   \<and> ''abc'' \<noteq> [] \<and> \<not> objectId_format ''abc''
   \<and> updateSingleVideo objectId_format video_store ben_id ''abc'' retitle
        = (video_store, Next (CustomError ''Please provide a verified id.'' 400))
   \<and> deleteSingleVideo objectId_format video_store ben_id ''abc''
        = (video_store, Next (CustomError ''Please provide a verified id.'' 400))
   \<and> deleteComment objectId_format video_store ben_id ''abc''
        = (video_store, Next (CustomError ''Please provide a verified comment id.'' 400))"
proof -
  have a: "''abc'' \<noteq> [] \<and> \<not> objectId_format ''abc''"
    by (simp add: objectId_format_def)
  show ?thesis
    using missing_resource_reported_first[of absent_id objectId_format video_store ben_id retitle absent_id]
          missing_resource_reported_first[of "''abc''" objectId_format video_store ben_id retitle "''abc''"]
          video_store_facts(3) a
    by blast
qed

text \<open>
  C5 as stated fails: deleting a comment that is not in the store is answered as a
  success, and an id that fails the id test is answered as a validation failure with the
  status of an ownership mismatch.
\<close>

theorem missing_resource_counterexample:
  "comments video_store absent_id = None
   \<and> answer (snd (deleteComment objectId_format video_store ana_id absent_id))
        = Some \<lparr>statusCode = 200, cookie_ops = [], body = Message True ''Comment couldn't be find.''\<rparr>
   \<and> videos video_store ''abc'' = None
   \<and> answer (snd (deleteSingleVideo objectId_format video_store ana_id ''abc''))
        = Some \<lparr>statusCode = 400, cookie_ops = [], body = Message False ''Please provide a verified id.''\<rparr>"
  by (simp add: deleteComment_def deleteSingleVideo_def objectId_format_def
        customErrorHandler_def CustomError_def id_defs example_defs)

section \<open>C6: self-subscription\<close>

text \<open>
  C6. For every account id \<open>A\<close> and every store, whatever the store would throw,
  \<^verbatim>\<open>subscribeAccount\<close> and \<^verbatim>\<open>unsubscribeAccount\<close> called by \<open>A\<close> on \<open>A\<close> forward a
  \<^verbatim>\<open>CustomError\<close> with status 400, the terminal responder answers it with HTTP 400 and
  \<^verbatim>\<open>success: false\<close>, and the store, hence the two sets of every account, is the one
  before the call.
\<close>

theorem self_subscription_rejected:
  "subscribeAccount thrown now st A A = (st, Next (CustomError ''You cannot subscribe to yourself.'' 400))
   \<and> unsubscribeAccount thrown now st A A
       = (st, Next (CustomError ''You cannot unsubscribe to yourself.'' 400))
   \<and> answer (snd (subscribeAccount thrown now st A A))
       = Some \<lparr>statusCode = 400, cookie_ops = [], body = Message False ''You cannot subscribe to yourself.''\<rparr>
   \<and> answer (snd (unsubscribeAccount thrown now st A A))
       = Some \<lparr>statusCode = 400, cookie_ops = [], body = Message False ''You cannot unsubscribe to yourself.''\<rparr>
   \<and> subscribed_to (fst (subscribeAccount thrown now st A A)) X = subscribed_to st X
   \<and> subscribers_of (fst (subscribeAccount thrown now st A A)) X = subscribers_of st X
   \<and> subscribed_to (fst (unsubscribeAccount thrown now st A A)) X = subscribed_to st X
   \<and> subscribers_of (fst (unsubscribeAccount thrown now st A A)) X = subscribers_of st X"
  by (simp add: subscribeAccount_def unsubscribeAccount_def customErrorHandler_def CustomError_def)

section \<open>C7: idempotence of subscribing\<close>

text \<open>
  C7. For every store and every two ids: after \<^verbatim>\<open>subscribeAccount\<close> has been called
  twice in succession, the two sets of every account, so those of the subscribing and of
  the subscribed one, are what they are after the first call, and a set without
  duplicates has none afterwards; \<^verbatim>\<open>unsubscribeAccount\<close> leaves the two sets of every
  account as they are, whether or not the id is in them. This holds whatever the store
  throws in the two requests. Where the two ids differ and the store throws nothing for
  either of them, as for two ids that cast to an ObjectId in a store that is in reach,
  the second \<^verbatim>\<open>subscribeAccount\<close> and the \<^verbatim>\<open>unsubscribeAccount\<close> answer with HTTP 200
  and \<^verbatim>\<open>success: true\<close>.
\<close>

theorem subscribe_idempotent:
  "subscribed_to (fst (subscribeAccount thrown' now' (fst (subscribeAccount thrown now st A B)) A B)) X
     = subscribed_to (fst (subscribeAccount thrown now st A B)) X
   \<and> subscribers_of (fst (subscribeAccount thrown' now' (fst (subscribeAccount thrown now st A B)) A B)) X
     = subscribers_of (fst (subscribeAccount thrown now st A B)) X
   \<and> (distinct (subscribed_to st X)
      \<longrightarrow> distinct (subscribed_to
                      (fst (subscribeAccount thrown' now' (fst (subscribeAccount thrown now st A B)) A B)) X))
   \<and> (distinct (subscribers_of st X)
      \<longrightarrow> distinct (subscribers_of
                      (fst (subscribeAccount thrown' now' (fst (subscribeAccount thrown now st A B)) A B)) X))
   \<and> subscribed_to (fst (unsubscribeAccount thrown now st A B)) X = subscribed_to st X
   \<and> subscribers_of (fst (unsubscribeAccount thrown now st A B)) X = subscribers_of st X
   \<and> (A \<noteq> B \<and> thrown' A = None \<and> thrown' B = None
      \<longrightarrow> snd (subscribeAccount thrown' now' (fst (subscribeAccount thrown now st A B)) A B)
            = Respond \<lparr>statusCode = 200, cookie_ops = [],
                        body = Message True (''You have been subscribed to '' @ B @ ''.'')\<rparr>)
   \<and> (A \<noteq> B \<and> thrown A = None \<and> thrown B = None
      \<longrightarrow> snd (unsubscribeAccount thrown now st A B)
            = Respond \<lparr>statusCode = 200, cookie_ops = [],
                        body = Message True (''You have been unsubscribed from '' @ B @ ''.'')\<rparr>)"
proof -
  have a: "A \<noteq> B \<and> thrown' A = None \<and> thrown' B = None
      \<longrightarrow> snd (subscribeAccount thrown' now' (fst (subscribeAccount thrown now st A B)) A B)
            = Respond \<lparr>statusCode = 200, cookie_ops = [],
                        body = Message True (''You have been subscribed to '' @ B @ ''.'')\<rparr>"
    by (simp add: subscribeAccount_def[of thrown'] Account_findByIdAndUpdate_def)
  have b: "A \<noteq> B \<and> thrown A = None \<and> thrown B = None
      \<longrightarrow> snd (unsubscribeAccount thrown now st A B)
            = Respond \<lparr>statusCode = 200, cookie_ops = [],
                        body = Message True (''You have been unsubscribed from '' @ B @ ''.'')\<rparr>"
    by (simp add: unsubscribeAccount_def Account_findByIdAndUpdate_def)
  from a b show ?thesis
    by (simp add: subscribe_sets unsubscribe_sets)
qed

text \<open>
  The first of two registered accounts subscribes to the second twice, and unsubscribes
  from it without a subscription.
\<close>

theorem subscribe_idempotent_witness:
  "ana_id \<noteq> ben_id \<and> strict_ids ana_id = None \<and> strict_ids ben_id = None
   \<and> distinct (subscribed_to two_accounts ana_id) \<and> distinct (subscribers_of two_accounts ben_id)
   \<and> subscribed_to
        (fst (subscribeAccount strict_ids 6000
                (fst (subscribeAccount strict_ids 5000 two_accounts ana_id ben_id)) ana_id ben_id)) ana_id
       = subscribed_to (fst (subscribeAccount strict_ids 5000 two_accounts ana_id ben_id)) ana_id
   \<and> subscribers_of
        (fst (subscribeAccount strict_ids 6000
                (fst (subscribeAccount strict_ids 5000 two_accounts ana_id ben_id)) ana_id ben_id)) ben_id
       = subscribers_of (fst (subscribeAccount strict_ids 5000 two_accounts ana_id ben_id)) ben_id
   \<and> distinct (subscribed_to
        (fst (subscribeAccount strict_ids 6000
                (fst (subscribeAccount strict_ids 5000 two_accounts ana_id ben_id)) ana_id ben_id)) ana_id)
   \<and> distinct (subscribers_of
        (fst (subscribeAccount strict_ids 6000
                (fst (subscribeAccount strict_ids 5000 two_accounts ana_id ben_id)) ana_id ben_id)) ben_id)
   \<and> snd (subscribeAccount strict_ids 6000
            (fst (subscribeAccount strict_ids 5000 two_accounts ana_id ben_id)) ana_id ben_id)
       = Respond \<lparr>statusCode = 200, cookie_ops = [],
                   body = Message True (''You have been subscribed to '' @ ben_id @ ''.'')\<rparr>
   \<and> snd (unsubscribeAccount strict_ids 5000 two_accounts ana_id ben_id)
       = Respond \<lparr>statusCode = 200, cookie_ops = [],
                   body = Message True (''You have been unsubscribed from '' @ ben_id @ ''.'')\<rparr>
   \<and> subscribed_to (fst (unsubscribeAccount strict_ids 5000 two_accounts ana_id ben_id)) ana_id
       = subscribed_to two_accounts ana_id"
proof -
  have a: "ana_id \<noteq> ben_id \<and> strict_ids ana_id = None \<and> strict_ids ben_id = None"
    by (simp add: strict_ids_examples) (simp add: id_defs)
  have d: "distinct (subscribed_to two_accounts ana_id) \<and> distinct (subscribers_of two_accounts ben_id)"
    by (simp add: subscribed_to_def subscribers_of_def example_defs id_defs)
  show ?thesis
    using subscribe_idempotent[of strict_ids 6000 strict_ids 5000 two_accounts ana_id ben_id ana_id]
          subscribe_idempotent[of strict_ids 6000 strict_ids 5000 two_accounts ana_id ben_id ben_id]
          a d
    by blast
qed

section \<open>C8: failures and the terminal responder\<close>




section \<open>C9: the status of an ownership mismatch\<close>

text \<open>
  C9. An account update whose authenticated id differs from the target id is answered by
  the terminal responder with HTTP 500 and the body \<^verbatim>\<open>{success: false, message}\<close>,
  whatever the store would throw; an ownership mismatch on a video update, a video
  deletion and a comment deletion is answered with HTTP 400 and a body of the same
  shape. The id hypotheses are those of a route parameter (not empty) and of a stored
  document's id.
\<close>

theorem ownership_mismatch_status:
  "(updateAccountId \<noteq> [] \<and> actor \<noteq> updateAccountId
      \<longrightarrow> updateAccountInformations thrown save_thrown now st actor updateAccountId accountBody
            = (st, Next (CustomError ''You cannot update this channel'' 500))
        \<and> answer (snd (updateAccountInformations thrown save_thrown now st actor updateAccountId accountBody))
            = Some \<lparr>statusCode = 500, cookie_ops = [], body = Message False ''You cannot update this channel''\<rparr>)
   \<and> (videoId \<noteq> [] \<and> isValid videoId \<and> videos st videoId = Some v \<and> actor \<noteq> video.account_id v
      \<longrightarrow> answer (snd (updateSingleVideo isValid st actor videoId videoBody))
            = Some \<lparr>statusCode = 400, cookie_ops = [], body = Message False ''You can update only your account''\<rparr>
        \<and> answer (snd (deleteSingleVideo isValid st actor videoId))
            = Some \<lparr>statusCode = 400, cookie_ops = [], body = Message False ''You can delete only your video''\<rparr>)
   \<and> (commentId \<noteq> [] \<and> isValid commentId \<and> comments st commentId = Some c \<and> actor \<noteq> comment.account_id c
      \<longrightarrow> answer (snd (deleteComment isValid st actor commentId))
            = Some \<lparr>statusCode = 400, cookie_ops = [], body = Message False ''You cannot delete this comment.''\<rparr>)"
  by (auto simp: updateAccountInformations_def updateSingleVideo_def deleteSingleVideo_def
        deleteComment_def customErrorHandler_def CustomError_def)

text \<open>The second account attempts the four mutations on what the first one owns.\<close>

theorem ownership_mismatch_status_witness:
  "ana_id \<noteq> [] \<and> ben_id \<noteq> ana_id
   \<and> updateAccountInformations strict_ids None 5000 video_store ben_id ana_id promote
        = (video_store, Next (CustomError ''You cannot update this channel'' 500))
   \<and> answer (snd (updateAccountInformations strict_ids None 5000 video_store ben_id ana_id promote))
        = Some \<lparr>statusCode = 500, cookie_ops = [], body = Message False ''You cannot update this channel''\<rparr>
   \<and> intro_id \<noteq> [] \<and> objectId_format intro_id \<and> videos video_store intro_id = Some intro
   \<and> ben_id \<noteq> video.account_id intro
   \<and> answer (snd (updateSingleVideo objectId_format video_store ben_id intro_id retitle))
        = Some \<lparr>statusCode = 400, cookie_ops = [], body = Message False ''You can update only your account''\<rparr>
   \<and> answer (snd (deleteSingleVideo objectId_format video_store ben_id intro_id))
        = Some \<lparr>statusCode = 400, cookie_ops = [], body = Message False ''You can delete only your video''\<rparr>
   \<and> nice_id \<noteq> [] \<and> objectId_format nice_id \<and> comments video_store nice_id = Some nice
   \<and> ben_id \<noteq> comment.account_id nice
   \<and> answer (snd (deleteComment objectId_format video_store ben_id nice_id))
        = Some \<lparr>statusCode = 400, cookie_ops = [], body = Message False ''You cannot delete this comment.''\<rparr>"
proof -
  have a: "ana_id \<noteq> [] \<and> ben_id \<noteq> ana_id" by (simp add: id_defs)
  show ?thesis
    using ownership_mismatch_status[of ana_id ben_id strict_ids None 5000 video_store promote intro_id
            objectId_format intro retitle nice_id nice] a video_store_facts(1,2)
    by blast
qed

section \<open>C10: the owner's update of an account\<close>




end
